theory Spec2Isabelle
  imports Main "HOL-Library.Word"
begin

section \<open>The solo-machine light client (06-solomachine/types/client\_state.go)\<close>

subsection \<open>Data\<close>

type_synonym uint64 = "64 word"
type_synonym bytes = "8 word list"

text \<open>A Go byte slice whose nil-ness the code inspects: \<open>None\<close> is the nil slice,
  \<open>Some []\<close> the empty non-nil slice. \<open>sliceBytes\<close> is its content.\<close>

type_synonym slice = "bytes option"

definition sliceBytes :: "slice \<Rightarrow> bytes" where
  "sliceBytes s = (case s of None \<Rightarrow> [] | Some bz \<Rightarrow> bz)"

record Height =
  RevisionNumber :: uint64
  RevisionHeight :: uint64

definition NewHeight :: "uint64 \<Rightarrow> uint64 \<Rightarrow> Height" where
  "NewHeight revisionNumber revisionHeight =
     \<lparr>RevisionNumber = revisionNumber, RevisionHeight = revisionHeight\<rparr>"

text \<open>The packed public key (a protobuf Any): its type URL and its encoded bytes.\<close>

record Any =
  TypeUrl :: string
  AnyValue :: bytes

record ConsensusState =
  PublicKey :: "Any option"
  Diversifier :: string
  Timestamp :: uint64

text \<open>\<open>ClientState.ConsensusState\<close> is a pointer: \<open>None\<close> is nil.\<close>

record ClientState =
  Sequence :: uint64
  IsFrozen :: bool
  ConsensusState :: "ConsensusState option"
  AllowUpdateAfterProposal :: bool

text \<open>An \<open>exported.ConsensusState\<close> interface value: the nil interface, a solo-machine
  consensus state pointer (possibly nil), or the consensus state of another client type
  (its type name and encoding).\<close>

datatype ConsensusStateI =
    NilConsensusState
  | SoloMachineConsensusState "ConsensusState option"
  | ForeignConsensusState string bytes

text \<open>An \<open>exported.Prefix\<close> interface value: nil, a \<open>*MerklePrefix\<close> with its key
  prefix, or a value of any other type.\<close>

datatype Prefix = NilPrefix | MerklePrefix bytes | OtherPrefix

type_synonym MerklePath = "string list"

record TimestampedSignatureData =
  SignatureData :: bytes
  TSD_Timestamp :: uint64

record SignBytesV2 =
  SB_Sequence :: uint64
  SB_Timestamp :: uint64
  SB_Diversifier :: string
  SB_Path :: bytes
  SB_Data :: bytes

datatype Status = Active | Frozen | Expired | Unknown

text \<open>The block context handed to every operation; only its time matters here
  (nanoseconds since the epoch).\<close>

record Context =
  BlockTime :: uint64

text \<open>Errors by kind. \<open>Wrap\<close> and \<open>Wrapf\<close> keep the kind and add a message, which is
  dropped. \<open>Callee\<close> is an error returned by a function outside this file (codec,
  crypto, host paths); the two panics are a nil-pointer dereference and the panic of
  \<open>MustMarshalClientState\<close>.\<close>

datatype error =
    ErrInvalidHeight
  | ErrInvalidPrefix
  | ErrInvalidProof
  | ErrCommitmentInvalidProof
  | ErrInvalidConsensus
  | ErrInvalidClient
  | ErrInvalidSequence
  | ErrInvalidUpgradeClient
  | Callee string
  | PanicNilPointer
  | PanicMarshal

subsection \<open>The functions this file calls and does not define\<close>

text \<open>The codec, the signature scheme, the host path builders and the sign-bytes
  builders live in other packages. They are parameters of the model: \<open>'pk\<close> is
  \<open>cryptotypes.PubKey\<close>, \<open>'sd\<close> is \<open>signing.SignatureData\<close>, \<open>'cl\<close>, \<open>'cn\<close> and \<open>'ch\<close>
  are the \<open>exported.ClientState\<close>, \<open>ConnectionI\<close> and \<open>ChannelI\<close> values that are only
  signed over.\<close>

record ('pk, 'sd, 'cl, 'cn, 'ch) Callees =
  UnmarshalTimestampedSignatureData :: "bytes \<Rightarrow> error + TimestampedSignatureData"
  UnmarshalMerklePath :: "bytes \<Rightarrow> error + MerklePath"
  UnmarshalSignatureData :: "bytes \<Rightarrow> error + 'sd"
  GetPubKey :: "ConsensusState \<Rightarrow> error + 'pk"
  VerifySignature :: "'pk \<Rightarrow> bytes \<Rightarrow> 'sd \<Rightarrow> error option"
  NewMerklePath :: "string \<Rightarrow> MerklePath"
  ApplyPrefix :: "Prefix \<Rightarrow> MerklePath \<Rightarrow> error + MerklePath"
  MerklePathString :: "MerklePath \<Rightarrow> bytes"
  MarshalSignBytesV2 :: "SignBytesV2 \<Rightarrow> error + bytes"
  FullClientStatePath :: "string \<Rightarrow> string"
  FullConsensusStatePath :: "string \<Rightarrow> Height \<Rightarrow> string"
  ConnectionPath :: "string \<Rightarrow> string"
  ChannelPath :: "string \<Rightarrow> string \<Rightarrow> string"
  PacketCommitmentPath :: "string \<Rightarrow> string \<Rightarrow> uint64 \<Rightarrow> string"
  PacketAcknowledgementPath :: "string \<Rightarrow> string \<Rightarrow> uint64 \<Rightarrow> string"
  PacketReceiptPath :: "string \<Rightarrow> string \<Rightarrow> uint64 \<Rightarrow> string"
  NextSequenceRecvPath :: "string \<Rightarrow> string \<Rightarrow> string"
  ClientStateSignBytes ::
    "uint64 \<Rightarrow> uint64 \<Rightarrow> string \<Rightarrow> MerklePath \<Rightarrow> 'cl \<Rightarrow> error + bytes"
  ConsensusStateSignBytes ::
    "uint64 \<Rightarrow> uint64 \<Rightarrow> string \<Rightarrow> MerklePath \<Rightarrow> ConsensusStateI \<Rightarrow> error + bytes"
  ConnectionStateSignBytes ::
    "uint64 \<Rightarrow> uint64 \<Rightarrow> string \<Rightarrow> MerklePath \<Rightarrow> 'cn \<Rightarrow> error + bytes"
  ChannelStateSignBytes ::
    "uint64 \<Rightarrow> uint64 \<Rightarrow> string \<Rightarrow> MerklePath \<Rightarrow> 'ch \<Rightarrow> error + bytes"
  PacketCommitmentSignBytes ::
    "uint64 \<Rightarrow> uint64 \<Rightarrow> string \<Rightarrow> MerklePath \<Rightarrow> bytes \<Rightarrow> error + bytes"
  PacketAcknowledgementSignBytes ::
    "uint64 \<Rightarrow> uint64 \<Rightarrow> string \<Rightarrow> MerklePath \<Rightarrow> bytes \<Rightarrow> error + bytes"
  PacketReceiptAbsenceSignBytes ::
    "uint64 \<Rightarrow> uint64 \<Rightarrow> string \<Rightarrow> MerklePath \<Rightarrow> error + bytes"
  NextSequenceRecvSignBytes ::
    "uint64 \<Rightarrow> uint64 \<Rightarrow> string \<Rightarrow> MerklePath \<Rightarrow> uint64 \<Rightarrow> error + bytes"
  MarshalClientState :: "ClientState \<Rightarrow> error + bytes"
  KeyClientState :: bytes

subsection \<open>State\<close>

text \<open>What a verification call can read and change: the \<open>ClientState\<close> object behind
  the receiver pointer, the client store, and the calls made to \<open>VerifySignature\<close> so
  far (public key, signed bytes, signature), in order.\<close>

record ('pk, 'sd) World =
  client :: ClientState
  clientStore :: "bytes \<rightharpoonup> bytes"
  sigChecks :: "('pk \<times> bytes \<times> 'sd) list"

subsection \<open>Operations\<close>

definition NewClientState :: "uint64 \<Rightarrow> ConsensusState option \<Rightarrow> bool \<Rightarrow> ClientState" where
  "NewClientState latestSequence consensusState allowUpdateAfterProposal =
     \<lparr>Sequence = latestSequence, IsFrozen = False, ConsensusState = consensusState,
      AllowUpdateAfterProposal = allowUpdateAfterProposal\<rparr>"

definition GetLatestHeight :: "ClientState \<Rightarrow> Height" where
  "GetLatestHeight cs = NewHeight 0 (Sequence cs)"

text \<open>\<open>Status\<close> ignores its context and store arguments.\<close>

definition Status :: "Context \<Rightarrow> (bytes \<rightharpoonup> bytes) \<Rightarrow> ClientState \<Rightarrow> Status" where
  "Status ctx store cs = (if IsFrozen cs then Frozen else Active)"

text \<open>\<open>reflect.DeepEqual(cs.ConsensusState, consState)\<close>: a \<open>*ConsensusState\<close> against
  an interface value. They are equal when the interface holds a \<open>*ConsensusState\<close> and
  the two pointers are both nil or point to equal structs.\<close>

definition DeepEqual :: "ConsensusState option \<Rightarrow> ConsensusStateI \<Rightarrow> bool" where
  "DeepEqual p consState =
     (case consState of
        NilConsensusState \<Rightarrow> False
      | SoloMachineConsensusState q \<Rightarrow> p = q
      | ForeignConsensusState tn bz \<Rightarrow> False)"

text \<open>\<open>Initialize\<close> ignores its context, codec and store arguments; the store is
  returned as it came.\<close>

definition Initialize ::
  "Context \<Rightarrow> (bytes \<rightharpoonup> bytes) \<Rightarrow> ConsensusStateI \<Rightarrow> ClientState
     \<Rightarrow> error option \<times> (bytes \<rightharpoonup> bytes)" where
  "Initialize ctx store consState cs =
     (if \<not> DeepEqual (ConsensusState cs) consState then (Some ErrInvalidConsensus, store)
      else (None, store))"


definition setClientState ::
  "('pk, 'sd, 'cl, 'cn, 'ch) Callees \<Rightarrow> ('pk, 'sd) World \<Rightarrow> error option \<times> ('pk, 'sd) World" where
  "setClientState env w =
     (case MarshalClientState env (client w) of
        Inl e \<Rightarrow> (Some PanicMarshal, w)
      | Inr bz \<Rightarrow> (None, w\<lparr>clientStore := (clientStore w)(KeyClientState env \<mapsto> bz)\<rparr>))"

definition produceVerificationArgs ::
  "('pk, 'sd, 'cl, 'cn, 'ch) Callees \<Rightarrow> ClientState \<Rightarrow> Height \<Rightarrow> Prefix \<Rightarrow> slice
     \<Rightarrow> error + ('pk \<times> 'sd \<times> uint64 \<times> uint64)" where
  "produceVerificationArgs env cs height prefix proof =
     (if RevisionNumber height \<noteq> 0 then Inl ErrInvalidHeight
      else
        let sequence = RevisionHeight height in
        case prefix of
          NilPrefix \<Rightarrow> Inl ErrInvalidPrefix
        | OtherPrefix \<Rightarrow> Inl ErrInvalidPrefix
        | MerklePrefix keyPrefix \<Rightarrow>
            (case proof of
               None \<Rightarrow> Inl ErrInvalidProof
             | Some bz \<Rightarrow>
                 (case UnmarshalTimestampedSignatureData env bz of
                    Inl e \<Rightarrow> Inl e
                  | Inr timestampedSigData \<Rightarrow>
                      let timestamp = TSD_Timestamp timestampedSigData in
                      if length (SignatureData timestampedSigData) = 0 then Inl ErrInvalidProof
                      else
                        case UnmarshalSignatureData env (SignatureData timestampedSigData) of
                          Inl e \<Rightarrow> Inl e
                        | Inr sigData \<Rightarrow>
                            (case ConsensusState cs of
                               None \<Rightarrow> Inl ErrInvalidConsensus
                             | Some consensusState \<Rightarrow>
                                 let latestSequence = RevisionHeight (GetLatestHeight cs) in
                                 if latestSequence \<noteq> sequence then Inl ErrInvalidHeight
                                 else if Timestamp consensusState > timestamp
                                   then Inl ErrInvalidProof
                                 else
                                   case GetPubKey env consensusState of
                                     Inl e \<Rightarrow> Inl e
                                   | Inr publicKey \<Rightarrow>
                                       Inr (publicKey, sigData, timestamp, sequence)))))"

text \<open>The last lines of every verification function: check the signature; on success
  increment the sequence, record the proof's timestamp in the consensus state and write
  the client state to the store.\<close>

definition verifySignatureAndUpdate ::
  "('pk, 'sd, 'cl, 'cn, 'ch) Callees \<Rightarrow> 'pk \<Rightarrow> bytes \<Rightarrow> 'sd \<Rightarrow> uint64 \<Rightarrow> ('pk, 'sd) World
     \<Rightarrow> error option \<times> ('pk, 'sd) World" where
  "verifySignatureAndUpdate env publicKey signBz sigData timestamp w =
     (let w1 = w\<lparr>sigChecks := sigChecks w @ [(publicKey, signBz, sigData)]\<rparr> in
      case VerifySignature env publicKey signBz sigData of
        Some e \<Rightarrow> (Some e, w1)
      | None \<Rightarrow>
          let cs1 = (client w1)\<lparr>Sequence := Sequence (client w1) + 1\<rparr> in
          (case ConsensusState cs1 of
             None \<Rightarrow> (Some PanicNilPointer, w1\<lparr>client := cs1\<rparr>)
           | Some consensusState \<Rightarrow>
               setClientState env
                 (w1\<lparr>client :=
                    cs1\<lparr>ConsensusState := Some (consensusState\<lparr>Timestamp := timestamp\<rparr>)\<rparr>\<rparr>)))"

text \<open>The diversifier read through \<open>cs.ConsensusState\<close>; a nil pointer panics.\<close>

definition diversifierOf :: "ClientState \<Rightarrow> error + string" where
  "diversifierOf cs =
     (case ConsensusState cs of None \<Rightarrow> Inl PanicNilPointer | Some c \<Rightarrow> Inr (Diversifier c))"

text \<open>The steps every legacy verification function takes after
  \<open>produceVerificationArgs\<close>: apply the prefix to the path, build the bytes to sign
  (\<open>signBytes\<close> is the function's own sign-bytes builder, applied to its data), then
  \<open>verifySignatureAndUpdate\<close>.\<close>

definition verifyAtPath ::
  "('pk, 'sd, 'cl, 'cn, 'ch) Callees \<Rightarrow> Height \<Rightarrow> Prefix \<Rightarrow> slice \<Rightarrow> string
     \<Rightarrow> (uint64 \<Rightarrow> uint64 \<Rightarrow> string \<Rightarrow> MerklePath \<Rightarrow> error + bytes)
     \<Rightarrow> ('pk, 'sd) World \<Rightarrow> error option \<times> ('pk, 'sd) World" where
  "verifyAtPath env height prefix proof hostPath signBytes w =
     (case produceVerificationArgs env (client w) height prefix proof of
        Inl e \<Rightarrow> (Some e, w)
      | Inr (publicKey, sigData, timestamp, sequence) \<Rightarrow>
          (case ApplyPrefix env prefix (NewMerklePath env hostPath) of
             Inl e \<Rightarrow> (Some e, w)
           | Inr path \<Rightarrow>
               (case diversifierOf (client w) of
                  Inl e \<Rightarrow> (Some e, w)
                | Inr diversifier \<Rightarrow>
                    (case signBytes sequence timestamp diversifier path of
                       Inl e \<Rightarrow> (Some e, w)
                     | Inr signBz \<Rightarrow>
                         verifySignatureAndUpdate env publicKey signBz sigData timestamp w))))"

text \<open>The legacy verification functions. Each names its host path and its sign-bytes
  builder; \<open>VerifyClientState\<close> and \<open>VerifyClientConsensusState\<close> first move the
  proof height forward by one and by two. The context and the two unnamed \<open>uint64\<close>
  parameters of the packet functions are not used by the code and are left out.\<close>

definition VerifyClientState ::
  "('pk, 'sd, 'cl, 'cn, 'ch) Callees \<Rightarrow> Height \<Rightarrow> Prefix \<Rightarrow> string \<Rightarrow> slice \<Rightarrow> 'cl
     \<Rightarrow> ('pk, 'sd) World \<Rightarrow> error option \<times> ('pk, 'sd) World" where
  "VerifyClientState env height prefix counterpartyClientIdentifier proof clientState w =
     (let height' = NewHeight (RevisionNumber height) (RevisionHeight height + 1) in
      verifyAtPath env height' prefix proof
        (FullClientStatePath env counterpartyClientIdentifier)
        (\<lambda>sequence timestamp diversifier path.
           ClientStateSignBytes env sequence timestamp diversifier path clientState) w)"

definition VerifyClientConsensusState ::
  "('pk, 'sd, 'cl, 'cn, 'ch) Callees \<Rightarrow> Height \<Rightarrow> string \<Rightarrow> Height \<Rightarrow> Prefix \<Rightarrow> slice
     \<Rightarrow> ConsensusStateI \<Rightarrow> ('pk, 'sd) World \<Rightarrow> error option \<times> ('pk, 'sd) World" where
  "VerifyClientConsensusState env height counterpartyClientIdentifier consensusHeight prefix
       proof consensusState w =
     (let height' = NewHeight (RevisionNumber height) (RevisionHeight height + 2) in
      verifyAtPath env height' prefix proof
        (FullConsensusStatePath env counterpartyClientIdentifier consensusHeight)
        (\<lambda>sequence timestamp diversifier path.
           ConsensusStateSignBytes env sequence timestamp diversifier path consensusState) w)"

definition VerifyConnectionState ::
  "('pk, 'sd, 'cl, 'cn, 'ch) Callees \<Rightarrow> Height \<Rightarrow> Prefix \<Rightarrow> slice \<Rightarrow> string \<Rightarrow> 'cn
     \<Rightarrow> ('pk, 'sd) World \<Rightarrow> error option \<times> ('pk, 'sd) World" where
  "VerifyConnectionState env height prefix proof connectionID connectionEnd w =
     verifyAtPath env height prefix proof (ConnectionPath env connectionID)
       (\<lambda>sequence timestamp diversifier path.
          ConnectionStateSignBytes env sequence timestamp diversifier path connectionEnd) w"

definition VerifyChannelState ::
  "('pk, 'sd, 'cl, 'cn, 'ch) Callees \<Rightarrow> Height \<Rightarrow> Prefix \<Rightarrow> slice \<Rightarrow> string \<Rightarrow> string \<Rightarrow> 'ch
     \<Rightarrow> ('pk, 'sd) World \<Rightarrow> error option \<times> ('pk, 'sd) World" where
  "VerifyChannelState env height prefix proof portID channelID channel w =
     verifyAtPath env height prefix proof (ChannelPath env portID channelID)
       (\<lambda>sequence timestamp diversifier path.
          ChannelStateSignBytes env sequence timestamp diversifier path channel) w"

definition VerifyPacketCommitment ::
  "('pk, 'sd, 'cl, 'cn, 'ch) Callees \<Rightarrow> Height \<Rightarrow> Prefix \<Rightarrow> slice \<Rightarrow> string \<Rightarrow> string
     \<Rightarrow> uint64 \<Rightarrow> bytes \<Rightarrow> ('pk, 'sd) World \<Rightarrow> error option \<times> ('pk, 'sd) World" where
  "VerifyPacketCommitment env height prefix proof portID channelID packetSequence
       commitmentBytes w =
     verifyAtPath env height prefix proof
       (PacketCommitmentPath env portID channelID packetSequence)
       (\<lambda>sequence timestamp diversifier path.
          PacketCommitmentSignBytes env sequence timestamp diversifier path commitmentBytes) w"

definition VerifyPacketAcknowledgement ::
  "('pk, 'sd, 'cl, 'cn, 'ch) Callees \<Rightarrow> Height \<Rightarrow> Prefix \<Rightarrow> slice \<Rightarrow> string \<Rightarrow> string
     \<Rightarrow> uint64 \<Rightarrow> bytes \<Rightarrow> ('pk, 'sd) World \<Rightarrow> error option \<times> ('pk, 'sd) World" where
  "VerifyPacketAcknowledgement env height prefix proof portID channelID packetSequence
       acknowledgement w =
     verifyAtPath env height prefix proof
       (PacketAcknowledgementPath env portID channelID packetSequence)
       (\<lambda>sequence timestamp diversifier path.
          PacketAcknowledgementSignBytes env sequence timestamp diversifier path
            acknowledgement) w"

definition VerifyPacketReceiptAbsence ::
  "('pk, 'sd, 'cl, 'cn, 'ch) Callees \<Rightarrow> Height \<Rightarrow> Prefix \<Rightarrow> slice \<Rightarrow> string \<Rightarrow> string
     \<Rightarrow> uint64 \<Rightarrow> ('pk, 'sd) World \<Rightarrow> error option \<times> ('pk, 'sd) World" where
  "VerifyPacketReceiptAbsence env height prefix proof portID channelID packetSequence w =
     verifyAtPath env height prefix proof
       (PacketReceiptPath env portID channelID packetSequence)
       (\<lambda>sequence timestamp diversifier path.
          PacketReceiptAbsenceSignBytes env sequence timestamp diversifier path) w"

definition VerifyNextSequenceRecv ::
  "('pk, 'sd, 'cl, 'cn, 'ch) Callees \<Rightarrow> Height \<Rightarrow> Prefix \<Rightarrow> slice \<Rightarrow> string \<Rightarrow> string
     \<Rightarrow> uint64 \<Rightarrow> ('pk, 'sd) World \<Rightarrow> error option \<times> ('pk, 'sd) World" where
  "VerifyNextSequenceRecv env height prefix proof portID channelID nextSequenceRecv w =
     verifyAtPath env height prefix proof (NextSequenceRecvPath env portID channelID)
       (\<lambda>sequence timestamp diversifier path.
          NextSequenceRecvSignBytes env sequence timestamp diversifier path
            nextSequenceRecv) w"

text \<open>The generic membership check. It takes the checks of \<open>produceVerificationArgs\<close> in
  its own order and without the prefix and nil-proof checks; the path is decoded from
  bytes. The two delay periods are not used.\<close>

definition VerifyMembership ::
  "('pk, 'sd, 'cl, 'cn, 'ch) Callees \<Rightarrow> Height \<Rightarrow> uint64 \<Rightarrow> uint64 \<Rightarrow> slice \<Rightarrow> bytes \<Rightarrow> bytes
     \<Rightarrow> ('pk, 'sd) World \<Rightarrow> error option \<times> ('pk, 'sd) World" where
  "VerifyMembership env height delayTimePeriod delayBlockPeriod proof path val w =
     (let cs = client w in
      if RevisionNumber height \<noteq> 0 then (Some ErrInvalidHeight, w)
      else
        let sequence = RevisionHeight height;
            latestSequence = RevisionHeight (GetLatestHeight cs) in
        if latestSequence \<noteq> sequence then (Some ErrInvalidHeight, w)
        else
          case UnmarshalMerklePath env path of
            Inl e \<Rightarrow> (Some ErrCommitmentInvalidProof, w)
          | Inr merklePath \<Rightarrow>
              (case UnmarshalTimestampedSignatureData env (sliceBytes proof) of
                 Inl e \<Rightarrow> (Some e, w)
               | Inr timestampedSigData \<Rightarrow>
                   let timestamp = TSD_Timestamp timestampedSigData in
                   if length (SignatureData timestampedSigData) = 0
                     then (Some ErrInvalidProof, w)
                   else
                     case UnmarshalSignatureData env (SignatureData timestampedSigData) of
                       Inl e \<Rightarrow> (Some e, w)
                     | Inr sigData \<Rightarrow>
                         (case ConsensusState cs of
                            None \<Rightarrow> (Some ErrInvalidConsensus, w)
                          | Some consensusState \<Rightarrow>
                              if Timestamp consensusState > timestamp
                                then (Some ErrInvalidProof, w)
                              else
                                case GetPubKey env consensusState of
                                  Inl e \<Rightarrow> (Some e, w)
                                | Inr publicKey \<Rightarrow>
                                    let signBytes =
                                      \<lparr>SB_Sequence = sequence, SB_Timestamp = timestamp,
                                       SB_Diversifier = Diversifier consensusState,
                                       SB_Path = MerklePathString env merklePath,
                                       SB_Data = val\<rparr> in
                                    (case MarshalSignBytesV2 env signBytes of
                                       Inl e \<Rightarrow> (Some e, w)
                                     | Inr signBz \<Rightarrow>
                                         verifySignatureAndUpdate env publicKey signBz
                                           sigData timestamp w))))"

text \<open>The generic non-membership check is not implemented: it returns nil.\<close>

definition VerifyNonMembership ::
  "('pk, 'sd, 'cl, 'cn, 'ch) Callees \<Rightarrow> Height \<Rightarrow> uint64 \<Rightarrow> uint64 \<Rightarrow> slice \<Rightarrow> bytes
     \<Rightarrow> ('pk, 'sd) World \<Rightarrow> error option \<times> ('pk, 'sd) World" where
  "VerifyNonMembership env height delayTimePeriod delayBlockPeriod proof path w = (None, w)"

subsection \<open>Calls as data\<close>

text \<open>One constructor per verification function, holding its arguments, so that a
  statement can range over every verification call.\<close>

datatype ('cl, 'cn, 'ch) VerifyCall =
    CallVerifyClientState Height Prefix string slice 'cl
  | CallVerifyClientConsensusState Height string Height Prefix slice ConsensusStateI
  | CallVerifyConnectionState Height Prefix slice string 'cn
  | CallVerifyChannelState Height Prefix slice string string 'ch
  | CallVerifyPacketCommitment Height Prefix slice string string uint64 bytes
  | CallVerifyPacketAcknowledgement Height Prefix slice string string uint64 bytes
  | CallVerifyPacketReceiptAbsence Height Prefix slice string string uint64
  | CallVerifyNextSequenceRecv Height Prefix slice string string uint64
  | CallVerifyMembership Height uint64 uint64 slice bytes bytes
  | CallVerifyNonMembership Height uint64 uint64 slice bytes

fun runVerify ::
  "('pk, 'sd, 'cl, 'cn, 'ch) Callees \<Rightarrow> ('cl, 'cn, 'ch) VerifyCall \<Rightarrow> ('pk, 'sd) World
     \<Rightarrow> error option \<times> ('pk, 'sd) World" where
  "runVerify env (CallVerifyClientState h p i pr c) w = VerifyClientState env h p i pr c w"
| "runVerify env (CallVerifyClientConsensusState h i ch p pr c) w =
     VerifyClientConsensusState env h i ch p pr c w"
| "runVerify env (CallVerifyConnectionState h p pr i c) w =
     VerifyConnectionState env h p pr i c w"
| "runVerify env (CallVerifyChannelState h p pr po ci c) w =
     VerifyChannelState env h p pr po ci c w"
| "runVerify env (CallVerifyPacketCommitment h p pr po ci s c) w =
     VerifyPacketCommitment env h p pr po ci s c w"
| "runVerify env (CallVerifyPacketAcknowledgement h p pr po ci s a) w =
     VerifyPacketAcknowledgement env h p pr po ci s a w"
| "runVerify env (CallVerifyPacketReceiptAbsence h p pr po ci s) w =
     VerifyPacketReceiptAbsence env h p pr po ci s w"
| "runVerify env (CallVerifyNextSequenceRecv h p pr po ci s) w =
     VerifyNextSequenceRecv env h p pr po ci s w"
| "runVerify env (CallVerifyMembership h dt db pr pa v) w =
     VerifyMembership env h dt db pr pa v w"
| "runVerify env (CallVerifyNonMembership h dt db pr pa) w =
     VerifyNonMembership env h dt db pr pa w"

text \<open>The proof height and the proof bytes a call was given.\<close>

fun proofHeight :: "('cl, 'cn, 'ch) VerifyCall \<Rightarrow> Height" where
  "proofHeight (CallVerifyClientState h p i pr c) = h"
| "proofHeight (CallVerifyClientConsensusState h i ch p pr c) = h"
| "proofHeight (CallVerifyConnectionState h p pr i c) = h"
| "proofHeight (CallVerifyChannelState h p pr po ci c) = h"
| "proofHeight (CallVerifyPacketCommitment h p pr po ci s c) = h"
| "proofHeight (CallVerifyPacketAcknowledgement h p pr po ci s a) = h"
| "proofHeight (CallVerifyPacketReceiptAbsence h p pr po ci s) = h"
| "proofHeight (CallVerifyNextSequenceRecv h p pr po ci s) = h"
| "proofHeight (CallVerifyMembership h dt db pr pa v) = h"
| "proofHeight (CallVerifyNonMembership h dt db pr pa) = h"

fun proofOf :: "('cl, 'cn, 'ch) VerifyCall \<Rightarrow> slice" where
  "proofOf (CallVerifyClientState h p i pr c) = pr"
| "proofOf (CallVerifyClientConsensusState h i ch p pr c) = pr"
| "proofOf (CallVerifyConnectionState h p pr i c) = pr"
| "proofOf (CallVerifyChannelState h p pr po ci c) = pr"
| "proofOf (CallVerifyPacketCommitment h p pr po ci s c) = pr"
| "proofOf (CallVerifyPacketAcknowledgement h p pr po ci s a) = pr"
| "proofOf (CallVerifyPacketReceiptAbsence h p pr po ci s) = pr"
| "proofOf (CallVerifyNextSequenceRecv h p pr po ci s) = pr"
| "proofOf (CallVerifyMembership h dt db pr pa v) = pr"
| "proofOf (CallVerifyNonMembership h dt db pr pa) = pr"

text \<open>How far a call moves the proof height forward before comparing it with the
  client's sequence, and whether the call is the unimplemented non-membership check.\<close>

fun heightShift :: "('cl, 'cn, 'ch) VerifyCall \<Rightarrow> uint64" where
  "heightShift (CallVerifyClientState h p i pr c) = 1"
| "heightShift (CallVerifyClientConsensusState h i ch p pr c) = 2"
| "heightShift c = 0"

fun isNonMembership :: "('cl, 'cn, 'ch) VerifyCall \<Rightarrow> bool" where
  "isNonMembership (CallVerifyNonMembership h dt db pr pa) = True"
| "isNonMembership c = False"




subsection \<open>A concrete instance\<close>

text \<open>A small instance of the parameters, for evaluating the model on concrete inputs.
  A proof is one timestamp byte followed by the signature; a signature is valid when it
  is the public key followed by the signed bytes; the empty proof decodes to the empty
  message. Keys, paths and payloads are byte strings.\<close>

definition toyCallees :: "(bytes, bytes, bytes, bytes, bytes) Callees" where
  "toyCallees =
     \<lparr>UnmarshalTimestampedSignatureData =
        (\<lambda>bz. case bz of
                 [] \<Rightarrow> Inr \<lparr>SignatureData = [], TSD_Timestamp = 0\<rparr>
               | t # sg \<Rightarrow> Inr \<lparr>SignatureData = sg, TSD_Timestamp = ucast t\<rparr>),
      UnmarshalMerklePath =
        (\<lambda>bz. if bz = [] then Inl (Callee ''empty path'') else Inr [''ibc'', ''key'']),
      UnmarshalSignatureData = (\<lambda>bz. Inr bz),
      GetPubKey =
        (\<lambda>c. case PublicKey c of
                None \<Rightarrow> Inl (Callee ''empty public key'')
              | Some a \<Rightarrow> Inr (AnyValue a)),
      VerifySignature =
        (\<lambda>pk msg sg. if sg = pk @ msg then None
                      else Some (Callee ''signature verification failed'')),
      NewMerklePath = (\<lambda>s. [s]),
      ApplyPrefix =
        (\<lambda>prefix p. case prefix of
                       MerklePrefix kp \<Rightarrow>
                         if kp = [] then Inl ErrInvalidPrefix else Inr (''ibc'' # p)
                     | _ \<Rightarrow> Inl ErrInvalidPrefix),
      MerklePathString = (\<lambda>p. [of_nat (length p)]),
      MarshalSignBytesV2 =
        (\<lambda>sb. Inr ([ucast (SB_Sequence sb), ucast (SB_Timestamp sb)] @ SB_Path sb @ SB_Data sb)),
      FullClientStatePath = (\<lambda>i. ''clients/'' @ i @ ''/clientState''),
      FullConsensusStatePath = (\<lambda>i h. ''clients/'' @ i @ ''/consensusStates''),
      ConnectionPath = (\<lambda>i. ''connections/'' @ i),
      ChannelPath = (\<lambda>p c. ''channelEnds/ports/'' @ p @ ''/channels/'' @ c),
      PacketCommitmentPath = (\<lambda>p c s. ''commitments/ports/'' @ p @ ''/channels/'' @ c),
      PacketAcknowledgementPath = (\<lambda>p c s. ''acks/ports/'' @ p @ ''/channels/'' @ c),
      PacketReceiptPath = (\<lambda>p c s. ''receipts/ports/'' @ p @ ''/channels/'' @ c),
      NextSequenceRecvPath = (\<lambda>p c. ''nextSequenceRecv/ports/'' @ p @ ''/channels/'' @ c),
      ClientStateSignBytes = (\<lambda>s t d p x. Inr ([ucast s, ucast t, 1] @ x)),
      ConsensusStateSignBytes = (\<lambda>s t d p x. Inr [ucast s, ucast t, 2]),
      ConnectionStateSignBytes = (\<lambda>s t d p x. Inr ([ucast s, ucast t, 3] @ x)),
      ChannelStateSignBytes = (\<lambda>s t d p x. Inr ([ucast s, ucast t, 4] @ x)),
      PacketCommitmentSignBytes = (\<lambda>s t d p x. Inr ([ucast s, ucast t, 5] @ x)),
      PacketAcknowledgementSignBytes = (\<lambda>s t d p x. Inr ([ucast s, ucast t, 6] @ x)),
      PacketReceiptAbsenceSignBytes = (\<lambda>s t d p. Inr [ucast s, ucast t, 7]),
      NextSequenceRecvSignBytes = (\<lambda>s t d p x. Inr [ucast s, ucast t, 8, ucast x]),
      MarshalClientState =
        (\<lambda>cs. Inr [ucast (Sequence cs), if IsFrozen cs then 1 else 0,
                   case ConsensusState cs of None \<Rightarrow> 0 | Some c \<Rightarrow> ucast (Timestamp c)]),
      KeyClientState = [99, 108, 105, 101, 110, 116, 83, 116, 97, 116, 101]\<rparr>"

text \<open>A solo machine with public key \<open>[7]\<close> whose last signature was made at time 10,
  a client of it at sequence 5, the same client frozen, and the world in which a client
  is loaded and stored under the client-state key.\<close>

definition machineKey :: ConsensusState where
  "machineKey =
     \<lparr>PublicKey = Some \<lparr>TypeUrl = ''/cosmos.crypto.secp256k1.PubKey'', AnyValue = [7]\<rparr>,
      Diversifier = ''solo'', Timestamp = 10\<rparr>"

definition activeClient :: ClientState where
  "activeClient = NewClientState 5 (Some machineKey) False"

definition frozenClient :: ClientState where
  "frozenClient = activeClient\<lparr>IsFrozen := True\<rparr>"

definition worldOf :: "ClientState \<Rightarrow> (bytes, bytes) World" where
  "worldOf cs =
     \<lparr>client = cs,
      clientStore =
        [KeyClientState toyCallees \<mapsto>
           [ucast (Sequence cs), if IsFrozen cs then 1 else 0, 10]],
      sigChecks = []\<rparr>"

section \<open>The 08-wasm keeper: storing contract code\<close>

text \<open>Errors of \<open>storeWasmCode\<close>. \<open>Wrap\<close> keeps the wrapped error and its message;
  \<open>WasmCallee\<close> is an error returned by a function outside the file;
  \<open>ErrorOutOfGas\<close> is the panic of a gas meter whose limit is exceeded.\<close>

datatype wasm_error =
    ErrWasmCodeExists
  | ErrInvalidCodeHash
  | WasmCallee string
  | Wrap wasm_error string
  | ErrorOutOfGas

text \<open>The functions the keeper calls and does not define: \<open>sha256.Sum256\<close>, the gzip
  helpers, the code validation and the gas register of the \<open>types\<close> package, the Wasm
  VM (\<open>'vm\<close> is its state) and the gas meter of the context (\<open>'gas\<close> is its state;
  \<open>ConsumeGas\<close> gives \<open>None\<close> where the meter panics). Setting a key of the
  code-hash store can fail; \<open>CodeHashesSetError\<close> says for which keys.\<close>

record ('vm, 'gas) WasmCallees =
  Sum256 :: "bytes \<Rightarrow> bytes"
  IsGzip :: "bytes \<Rightarrow> bool"
  Uncompress :: "bytes \<Rightarrow> uint64 \<Rightarrow> wasm_error + bytes"
  MaxWasmByteSize :: uint64
  UncompressCosts :: "nat \<Rightarrow> uint64"
  CompileCosts :: "nat \<Rightarrow> uint64"
  ValidateWasmCode :: "bytes \<Rightarrow> wasm_error option"
  StoreCode :: "'vm \<Rightarrow> bytes \<Rightarrow> (wasm_error + bytes) \<times> 'vm"
  Pin :: "'vm \<Rightarrow> bytes \<Rightarrow> wasm_error option \<times> 'vm"
  ConsumeGas :: "'gas \<Rightarrow> uint64 \<Rightarrow> 'gas option"
  CodeHashesSetError :: "bytes \<Rightarrow> wasm_error option"

text \<open>The state the keeper works on: the VM, the gas meter of the context and the
  code-hash store \<open>ibcwasm.CodeHashes\<close>, a set of keys.\<close>

record ('vm, 'gas) WasmState =
  wasmVM :: 'vm
  GasMeter :: 'gas
  CodeHashes :: "bytes set"

definition generateWasmCodeHash :: "('vm, 'gas) WasmCallees \<Rightarrow> bytes \<Rightarrow> bytes" where
  "generateWasmCodeHash k code = Sum256 k code"

definition HasCodeHash :: "('vm, 'gas) WasmState \<Rightarrow> bytes \<Rightarrow> bool" where
  "HasCodeHash st codeHash = (codeHash \<in> CodeHashes st)"

text \<open>The first block of \<open>storeWasmCode\<close>: gzip code is charged for and uncompressed;
  the result is the code the rest of the function works on, or the failure.\<close>

definition uncompressIfGzip ::
  "('vm, 'gas) WasmCallees \<Rightarrow> bytes \<Rightarrow> ('vm, 'gas) WasmState
     \<Rightarrow> (wasm_error + bytes) \<times> ('vm, 'gas) WasmState" where
  "uncompressIfGzip k code st =
     (if IsGzip k code then
        (case ConsumeGas k (GasMeter st) (UncompressCosts k (length code)) of
           None \<Rightarrow> (Inl ErrorOutOfGas, st)
         | Some g \<Rightarrow>
             (case Uncompress k code (MaxWasmByteSize k) of
                Inl err \<Rightarrow> (Inl (Wrap err ''failed to store contract''), st\<lparr>GasMeter := g\<rparr>)
              | Inr code' \<Rightarrow> (Inr code', st\<lparr>GasMeter := g\<rparr>)))
      else (Inr code, st))"

definition storeWasmCode ::
  "('vm, 'gas) WasmCallees \<Rightarrow> bytes \<Rightarrow> ('vm, 'gas) WasmState
     \<Rightarrow> (wasm_error + bytes) \<times> ('vm, 'gas) WasmState" where
  "storeWasmCode k code0 st0 =
     (case uncompressIfGzip k code0 st0 of
        (Inl err, st) \<Rightarrow> (Inl err, st)
      | (Inr code, st) \<Rightarrow>
          let codeHash = generateWasmCodeHash k code in
          if HasCodeHash st codeHash then (Inl ErrWasmCodeExists, st)
          else
            case ValidateWasmCode k code of
              Some err \<Rightarrow> (Inl (Wrap err ''wasm bytecode validation failed''), st)
            | None \<Rightarrow>
                (case ConsumeGas k (GasMeter st) (CompileCosts k (length code)) of
                   None \<Rightarrow> (Inl ErrorOutOfGas, st)
                 | Some g \<Rightarrow>
                     (case StoreCode k (wasmVM st) code of
                        (Inl err, vm) \<Rightarrow>
                          (Inl (Wrap err ''failed to store contract''),
                           st\<lparr>GasMeter := g, wasmVM := vm\<rparr>)
                      | (Inr vmCodeHash, vm) \<Rightarrow>
                          if vmCodeHash \<noteq> codeHash then
                            (Inl (Wrap ErrInvalidCodeHash ''expected, got''),
                             st\<lparr>GasMeter := g, wasmVM := vm\<rparr>)
                          else
                            (case Pin k vm vmCodeHash of
                               (Some err, vm') \<Rightarrow>
                                 (Inl (Wrap err ''failed to pin contract''),
                                  st\<lparr>GasMeter := g, wasmVM := vm'\<rparr>)
                             | (None, vm') \<Rightarrow>
                                 (case CodeHashesSetError k codeHash of
                                    Some err \<Rightarrow>
                                      (Inl (Wrap err ''failed to store code hash''),
                                       st\<lparr>GasMeter := g, wasmVM := vm'\<rparr>)
                                  | None \<Rightarrow>
                                      (Inr codeHash,
                                       st\<lparr>GasMeter := g, wasmVM := vm',
                                          CodeHashes := insert codeHash (CodeHashes st)\<rparr>))))))"

subsection \<open>A concrete instance\<close>

text \<open>A small instance: the hash of a byte string is its length and its byte sum; gzip
  code starts with the gzip header \<open>1f 8b 08\<close> and uncompresses to what follows it; the
  VM keeps the codes it stored; the gas meter is the gas consumed and the limit, one unit
  of gas per byte.\<close>

definition toyHash :: "bytes \<Rightarrow> bytes" where
  "toyHash bz = [of_nat (length bz), sum_list bz]"

definition toyWasm :: "(bytes list, nat \<times> nat) WasmCallees" where
  "toyWasm =
     \<lparr>Sum256 = toyHash,
      IsGzip = (\<lambda>bz. take 3 bz = [31, 139, 8]),
      Uncompress =
        (\<lambda>bz limit. if length bz < 4 then Inl (WasmCallee ''unexpected EOF'')
                     else if unat limit < length bz - 3 then Inl (WasmCallee ''too large'')
                     else Inr (drop 3 bz)),
      MaxWasmByteSize = 100,
      UncompressCosts = (\<lambda>n. of_nat n),
      CompileCosts = (\<lambda>n. of_nat n),
      ValidateWasmCode = (\<lambda>bz. if bz = [] then Some (WasmCallee ''empty code'') else None),
      StoreCode = (\<lambda>vm code. (Inr (toyHash code), code # vm)),
      Pin = (\<lambda>vm h. (None, vm)),
      ConsumeGas =
        (\<lambda>(consumed, limit) amount.
           if limit < consumed + unat amount then None else Some (consumed + unat amount, limit)),
      CodeHashesSetError = (\<lambda>h. None)\<rparr>"

text \<open>A gzip-compressed code of two bytes, and the keeper state with an empty VM, a
  fresh gas meter with the given limit and the given recorded code hashes.\<close>

definition gzipCode :: bytes where
  "gzipCode = [31, 139, 8, 1, 2]"

definition toyWasmState :: "nat \<Rightarrow> bytes set \<Rightarrow> (bytes list, nat \<times> nat) WasmState" where
  "toyWasmState limit hashes = \<lparr>wasmVM = [], GasMeter = (0, limit), CodeHashes = hashes\<rparr>"


section \<open>The light-client contract of the specification\<close>

text \<open>Modelled from the spec: the remote-consensus light client (\<open>update_state\<close>,
  \<open>check_misbehaviour\<close>, \<open>freeze\<close>) and the client keeper that stores its
  states are not among the sources; only the keeper's tests are
  (core/02-client/keeper/client\_test.go). The records follow section 3 of the
  specification, the operations section 4.1, the errors section 7.\<close>

datatype lc_error =
    ClientFrozen
  | ClientExpired
  | ConsensusStateNotFound
  | HeaderInvalid
  | InvalidHeight
  | MisbehaviourInvalid

text \<open>Modelled from the spec: heights are ordered lexicographically, by revision then
  height.\<close>

definition height_lt :: "Height \<Rightarrow> Height \<Rightarrow> bool" where
  "height_lt a b =
     (RevisionNumber a < RevisionNumber b
      \<or> (RevisionNumber a = RevisionNumber b \<and> RevisionHeight a < RevisionHeight b))"

text \<open>Modelled from the spec: \<open>a \<le> b\<close> on heights, from the same order.\<close>

definition height_le :: "Height \<Rightarrow> Height \<Rightarrow> bool" where
  "height_le a b = (a = b \<or> height_lt a b)"

text \<open>Modelled from the spec: a consensus state is a timestamp, a commitment root and a
  hash binding the next validator set; a client state is the latest trusted height, the
  trust parameters and the frozen height (absent when active). A header declares its
  height, the trusted height it is to be validated against, the content of the consensus
  state it asserts, and the commit signed over it.\<close>

record SpecConsensusState =
  cs_timestamp :: nat
  cs_root :: bytes
  cs_next_validators_hash :: bytes

text \<open>Modelled from the spec: the client state of section 3.\<close>

record SpecClientState =
  latest_height :: Height
  trust_threshold :: "nat \<times> nat"
  trusting_period :: nat
  max_clock_drift :: nat
  unbonding_period :: nat
  frozen_height :: "Height option"
  chain_id :: string

text \<open>Modelled from the spec: a header, with the fields that \<open>update_state\<close> and the
  trust rule of section 4.1 read.\<close>

record SpecHeader =
  h_height :: Height
  h_trusted_height :: Height
  h_timestamp :: nat
  h_root :: bytes
  h_next_validators_hash :: bytes
  h_commit :: bytes

text \<open>Modelled from the spec: the per-client keyspace holds the client state and a
  height-indexed map of consensus states (an association list, looked up with
  \<open>map_of\<close>).\<close>

record LightClient =
  client_state :: SpecClientState
  consensus_states :: "(Height \<times> SpecConsensusState) list"

text \<open>Modelled from the spec: the consensus state stored at a height, if any.\<close>

definition consensus_at :: "LightClient \<Rightarrow> Height \<Rightarrow> SpecConsensusState option" where
  "consensus_at cl h = map_of (consensus_states cl) h"

text \<open>Modelled from the spec: the consensus state a header asserts.\<close>

definition consensus_of :: "SpecHeader \<Rightarrow> SpecConsensusState" where
  "consensus_of hdr =
     \<lparr>cs_timestamp = h_timestamp hdr, cs_root = h_root hdr,
      cs_next_validators_hash = h_next_validators_hash hdr\<rparr>"

text \<open>Modelled from the spec: \<open>freeze(height)\<close> sets the frozen height.\<close>

definition freeze :: "Height \<Rightarrow> LightClient \<Rightarrow> LightClient" where
  "freeze h cl = cl\<lparr>client_state := (client_state cl)\<lparr>frozen_height := Some h\<rparr>\<rparr>"

text \<open>Modelled from the spec: a client is frozen when its frozen height is present.\<close>

definition is_frozen :: "LightClient \<Rightarrow> bool" where
  "is_frozen cl = (frozen_height (client_state cl) \<noteq> None)"

text \<open>Modelled from the spec: the trust rule. A header is valid against a trusted
  consensus state when a quorum of the trusted validator set signed it (the signature
  check \<open>quorum\<close> is a parameter: it is given the trust threshold, the unbonding period,
  the trusted consensus state and the header), its timestamp is within the maximal clock
  drift of the current time, and its timestamp is not before the trusted one when its
  height is above the trusted height. The trusted state must be within the trusting
  period.\<close>

definition header_valid ::
  "(nat \<times> nat \<Rightarrow> nat \<Rightarrow> SpecConsensusState \<Rightarrow> SpecHeader \<Rightarrow> bool) \<Rightarrow> nat \<Rightarrow> SpecClientState
     \<Rightarrow> SpecConsensusState \<Rightarrow> SpecHeader \<Rightarrow> bool" where
  "header_valid quorum now cs trusted hdr =
     (quorum (trust_threshold cs) (unbonding_period cs) trusted hdr
      \<and> h_timestamp hdr \<le> now + max_clock_drift cs
      \<and> (if height_lt (h_trusted_height hdr) (h_height hdr)
         then cs_timestamp trusted \<le> h_timestamp hdr else True))"

text \<open>Modelled from the spec: the validation of a header against the consensus state at its
  declared trusted height: \<open>ConsensusStateNotFound\<close> when there is none,
  \<open>ClientExpired\<close> when it is outside the trusting period, \<open>HeaderInvalid\<close> when the
  trust rule fails.\<close>

definition verify_header ::
  "(nat \<times> nat \<Rightarrow> nat \<Rightarrow> SpecConsensusState \<Rightarrow> SpecHeader \<Rightarrow> bool) \<Rightarrow> nat \<Rightarrow> LightClient
     \<Rightarrow> SpecHeader \<Rightarrow> lc_error option" where
  "verify_header quorum now cl hdr =
     (case consensus_at cl (h_trusted_height hdr) of
        None \<Rightarrow> Some ConsensusStateNotFound
      | Some trusted \<Rightarrow>
          if trusting_period (client_state cl) < now - cs_timestamp trusted
            then Some ClientExpired
          else if \<not> header_valid quorum now (client_state cl) trusted hdr
            then Some HeaderInvalid
          else None)"

text \<open>Modelled from the spec: a header's timestamp violates monotonicity when a stored
  consensus state at a later height is not later in time.\<close>

definition violates_monotonicity :: "LightClient \<Rightarrow> SpecHeader \<Rightarrow> bool" where
  "violates_monotonicity cl hdr =
     list_ex (\<lambda>(h, c). height_lt (h_height hdr) h \<and> cs_timestamp c \<le> h_timestamp hdr)
       (consensus_states cl)"

text \<open>Modelled from the spec: \<open>update_state\<close>. A frozen client accepts no update. The
  header is validated against the consensus state at its trusted height. A header whose
  consensus state is already stored is a no-op; one that conflicts with the stored
  consensus state at its height, or violates monotonicity, is misbehaviour and freezes
  the client at the header's height without storing anything. A header for a height
  without a stored consensus state that is not above its trusted height fails with
  \<open>InvalidHeight\<close>. Otherwise the consensus
  state is stored at the header's height, and the latest height advances when the
  header's height is above it.\<close>

definition update_state ::
  "(nat \<times> nat \<Rightarrow> nat \<Rightarrow> SpecConsensusState \<Rightarrow> SpecHeader \<Rightarrow> bool) \<Rightarrow> nat \<Rightarrow> SpecHeader
     \<Rightarrow> LightClient \<Rightarrow> lc_error + (Height \<times> LightClient)" where
  "update_state quorum now hdr cl =
     (if is_frozen cl then Inl ClientFrozen
      else
        case verify_header quorum now cl hdr of
          Some err \<Rightarrow> Inl err
        | None \<Rightarrow>
            (case consensus_at cl (h_height hdr) of
               Some stored \<Rightarrow>
                 if stored = consensus_of hdr then Inr (h_height hdr, cl)
                 else Inr (h_height hdr, freeze (h_height hdr) cl)
             | None \<Rightarrow>
                 if height_le (h_height hdr) (h_trusted_height hdr) then Inl InvalidHeight
                 else if violates_monotonicity cl hdr
                   then Inr (h_height hdr, freeze (h_height hdr) cl)
                 else
                   Inr (h_height hdr,
                        cl\<lparr>consensus_states := (h_height hdr, consensus_of hdr) # consensus_states cl,
                           client_state :=
                             (client_state cl)\<lparr>latest_height :=
                                if height_lt (latest_height (client_state cl)) (h_height hdr)
                                then h_height hdr else latest_height (client_state cl)\<rparr>\<rparr>)))"

text \<open>Modelled from the spec: \<open>check_misbehaviour\<close>. The evidence is two headers, each
  verified on its own against the consensus state at its own trusted height by the rule
  of \<open>update_state\<close>. It is misbehaviour when the two assert different content at the
  same height, or when the first is at a later height and not later in time. The result
  is the height to freeze at. Submitting the evidence freezes the client there.\<close>

definition check_misbehaviour ::
  "(nat \<times> nat \<Rightarrow> nat \<Rightarrow> SpecConsensusState \<Rightarrow> SpecHeader \<Rightarrow> bool) \<Rightarrow> nat
     \<Rightarrow> SpecHeader \<times> SpecHeader \<Rightarrow> LightClient \<Rightarrow> lc_error + Height" where
  "check_misbehaviour quorum now evidence cl =
     (case evidence of (header1, header2) \<Rightarrow>
        if is_frozen cl then Inl ClientFrozen
        else if consensus_at cl (h_trusted_height header1) = None
                \<or> consensus_at cl (h_trusted_height header2) = None
          then Inl ConsensusStateNotFound
        else if verify_header quorum now cl header1 \<noteq> None
                \<or> verify_header quorum now cl header2 \<noteq> None
          then Inl MisbehaviourInvalid
        else if h_height header1 = h_height header2
          then (if consensus_of header1 \<noteq> consensus_of header2
                then Inr (h_height header1) else Inl MisbehaviourInvalid)
        else if height_lt (h_height header2) (h_height header1)
                \<and> h_timestamp header1 \<le> h_timestamp header2
          then Inr (h_height header1)
        else Inl MisbehaviourInvalid)"

text \<open>Modelled from the spec: the SubmitMisbehaviour message of section 6: the check, then
  \<open>freeze\<close> at the height it returns.\<close>

definition submit_misbehaviour ::
  "(nat \<times> nat \<Rightarrow> nat \<Rightarrow> SpecConsensusState \<Rightarrow> SpecHeader \<Rightarrow> bool) \<Rightarrow> nat
     \<Rightarrow> SpecHeader \<times> SpecHeader \<Rightarrow> LightClient \<Rightarrow> lc_error + LightClient" where
  "submit_misbehaviour quorum now evidence cl =
     (case check_misbehaviour quorum now evidence cl of
        Inl err \<Rightarrow> Inl err
      | Inr h \<Rightarrow> Inr (freeze h cl))"



subsection \<open>A concrete instance\<close>

text \<open>A client of chain \<open>testchain\<close> with consensus states at heights 5, 10 and 13 of
  revision 0, latest height 13 and a trusting period of 1000; a commit is a quorum when
  it is the validator-set hash of the trusted consensus state.\<close>

definition toyQuorum :: "nat \<times> nat \<Rightarrow> nat \<Rightarrow> SpecConsensusState \<Rightarrow> SpecHeader \<Rightarrow> bool" where
  "toyQuorum threshold unbonding trusted hdr = (h_commit hdr = cs_next_validators_hash trusted)"

definition toyClient :: LightClient where
  "toyClient =
     \<lparr>client_state =
        \<lparr>latest_height = NewHeight 0 13, trust_threshold = (1, 3), trusting_period = 1000,
         max_clock_drift = 10, unbonding_period = 2000, frozen_height = None,
         chain_id = ''testchain''\<rparr>,
      consensus_states =
        [(NewHeight 0 13, \<lparr>cs_timestamp = 130, cs_root = [13], cs_next_validators_hash = [2]\<rparr>),
         (NewHeight 0 10, \<lparr>cs_timestamp = 100, cs_root = [10], cs_next_validators_hash = [1]\<rparr>),
         (NewHeight 0 5, \<lparr>cs_timestamp = 50, cs_root = [5], cs_next_validators_hash = [1]\<rparr>)]\<rparr>"

definition toyHeader :: "uint64 \<Rightarrow> uint64 \<Rightarrow> nat \<Rightarrow> bytes \<Rightarrow> bytes \<Rightarrow> SpecHeader" where
  "toyHeader height trusted time root commit =
     \<lparr>h_height = NewHeight 0 height, h_trusted_height = NewHeight 0 trusted,
      h_timestamp = time, h_root = root, h_next_validators_hash = [1], h_commit = commit\<rparr>"

section \<open>Properties of the solo-machine client\<close>

subsection \<open>What a verification call does to the state\<close>

lemma produceVerificationArgs_Inr:
  assumes "produceVerificationArgs env cs h p pr = Inr (pk, sd, ts, sq)"
  shows "\<exists>bz tsd c. pr = Some bz \<and> UnmarshalTimestampedSignatureData env bz = Inr tsd
           \<and> ts = TSD_Timestamp tsd \<and> ConsensusState cs = Some c
           \<and> RevisionNumber h = 0 \<and> RevisionHeight h = Sequence cs"
  using assms
  by (auto simp: produceVerificationArgs_def Let_def GetLatestHeight_def NewHeight_def
           split: if_splits Prefix.splits option.splits sum.splits)

lemma setClientState_effect:
  assumes "setClientState env w = (r, w')"
  shows "client w' = client w \<and> sigChecks w' = sigChecks w
         \<and> (case r of Some e \<Rightarrow> w' = w
             | None \<Rightarrow> \<exists>bz. MarshalClientState env (client w) = Inr bz
                  \<and> clientStore w' = (clientStore w)(KeyClientState env \<mapsto> bz))"
  using assms by (auto simp: setClientState_def split: sum.splits)

lemma verifySignatureAndUpdate_effect:
  assumes "verifySignatureAndUpdate env pk sb sd ts w = (r, w')"
  shows "IsFrozen (client w') = IsFrozen (client w)
         \<and> (case r of Some e \<Rightarrow> clientStore w' = clientStore w
             | None \<Rightarrow> \<exists>c bz. ConsensusState (client w) = Some c
                  \<and> client w' = (client w)\<lparr>Sequence := Sequence (client w) + 1,
                                  ConsensusState := Some (c\<lparr>Timestamp := ts\<rparr>)\<rparr>
                  \<and> MarshalClientState env (client w') = Inr bz
                  \<and> clientStore w' = (clientStore w)(KeyClientState env \<mapsto> bz))"
  using assms
  by (auto simp: verifySignatureAndUpdate_def Let_def setClientState_def
           split: option.splits sum.splits)


lemma verifyAtPath_effect:
  assumes "verifyAtPath env h p pr hp sb w = (r, w')"
  shows "IsFrozen (client w') = IsFrozen (client w)
         \<and> (case r of Some e \<Rightarrow> clientStore w' = clientStore w
             | None \<Rightarrow> \<exists>tsd c bz.
                  UnmarshalTimestampedSignatureData env (sliceBytes pr) = Inr tsd
                  \<and> ConsensusState (client w) = Some c
                  \<and> client w' = (client w)\<lparr>Sequence := Sequence (client w) + 1,
                        ConsensusState := Some (c\<lparr>Timestamp := TSD_Timestamp tsd\<rparr>)\<rparr>
                  \<and> MarshalClientState env (client w') = Inr bz
                  \<and> clientStore w' = (clientStore w)(KeyClientState env \<mapsto> bz))"
proof (cases "produceVerificationArgs env (client w) h p pr")
  case (Inl e)
  with assms show ?thesis by (auto simp: verifyAtPath_def)
next
  case (Inr args)
  obtain pk sd ts sq where args: "args = (pk, sd, ts, sq)" by (cases args) auto
  from Inr args have "produceVerificationArgs env (client w) h p pr = Inr (pk, sd, ts, sq)"
    by simp
  from produceVerificationArgs_Inr [OF this]
  obtain bz tsd c where pr: "pr = Some bz"
    and un: "UnmarshalTimestampedSignatureData env bz = Inr tsd"
    and ts: "ts = TSD_Timestamp tsd" and c: "ConsensusState (client w) = Some c"
    by blast
  show ?thesis
  proof (cases "ApplyPrefix env p (NewMerklePath env hp)")
    case (Inl e)
    with assms Inr args show ?thesis by (auto simp: verifyAtPath_def)
  next
    case path: (Inr path)
    show ?thesis
    proof (cases "sb sq ts (Diversifier c) path")
      case (Inl e)
      with assms Inr args path c show ?thesis
        by (auto simp: verifyAtPath_def diversifierOf_def)
    next
      case sbz: (Inr signBz)
      with assms Inr args path c
      have "verifySignatureAndUpdate env pk signBz sd ts w = (r, w')"
        by (auto simp: verifyAtPath_def diversifierOf_def)
      from verifySignatureAndUpdate_effect [OF this] pr un ts c show ?thesis
        by (auto simp: sliceBytes_def split: option.splits)
    qed
  qed
qed

lemma VerifyMembership_effect:
  assumes "VerifyMembership env h dt db pr pa v w = (r, w')"
  shows "IsFrozen (client w') = IsFrozen (client w)
         \<and> (case r of Some e \<Rightarrow> clientStore w' = clientStore w
             | None \<Rightarrow> \<exists>tsd c bz.
                  UnmarshalTimestampedSignatureData env (sliceBytes pr) = Inr tsd
                  \<and> ConsensusState (client w) = Some c
                  \<and> client w' = (client w)\<lparr>Sequence := Sequence (client w) + 1,
                        ConsensusState := Some (c\<lparr>Timestamp := TSD_Timestamp tsd\<rparr>)\<rparr>
                  \<and> MarshalClientState env (client w') = Inr bz
                  \<and> clientStore w' = (clientStore w)(KeyClientState env \<mapsto> bz))"
proof -
  consider (fail) e where "r = Some e" "w' = w"
    | (sig) pk signBz sd tsd c where
        "UnmarshalTimestampedSignatureData env (sliceBytes pr) = Inr tsd"
        "ConsensusState (client w) = Some c"
        "verifySignatureAndUpdate env pk signBz sd (TSD_Timestamp tsd) w = (r, w')"
    using assms
    by (auto simp: VerifyMembership_def Let_def split: if_splits option.splits sum.splits)
  then show ?thesis
  proof cases
    case fail
    then show ?thesis by simp
  next
    case sig
    from verifySignatureAndUpdate_effect [OF sig(3)] sig(1,2) show ?thesis
      by (auto split: option.splits)
  qed
qed

lemma runVerify_effect:
  assumes "runVerify env c w = (r, w')"
  shows "IsFrozen (client w') = IsFrozen (client w)
         \<and> (case r of Some e \<Rightarrow> clientStore w' = clientStore w
             | None \<Rightarrow> if isNonMembership c then w' = w else (\<exists>tsd cons bz.
                  UnmarshalTimestampedSignatureData env (sliceBytes (proofOf c)) = Inr tsd
                  \<and> ConsensusState (client w) = Some cons
                  \<and> client w' = (client w)\<lparr>Sequence := Sequence (client w) + 1,
                        ConsensusState := Some (cons\<lparr>Timestamp := TSD_Timestamp tsd\<rparr>)\<rparr>
                  \<and> MarshalClientState env (client w') = Inr bz
                  \<and> clientStore w' = (clientStore w)(KeyClientState env \<mapsto> bz)))"
proof (cases c)
  case (CallVerifyMembership h dt db pr pa v)
  with assms have "VerifyMembership env h dt db pr pa v w = (r, w')" by simp
  from VerifyMembership_effect [OF this] show ?thesis
    unfolding CallVerifyMembership by (cases r) auto
next
  case (CallVerifyNonMembership h dt db pr pa)
  with assms show ?thesis by (auto simp: VerifyNonMembership_def)
qed (use assms in \<open>simp_all add: VerifyClientState_def VerifyClientConsensusState_def
       VerifyConnectionState_def VerifyChannelState_def VerifyPacketCommitment_def
       VerifyPacketAcknowledgement_def VerifyPacketReceiptAbsence_def
       VerifyNextSequenceRecv_def Let_def verifyAtPath_effect\<close>)


lemmas toy_eval = toyCallees_def worldOf_def frozenClient_def activeClient_def
  NewClientState_def machineKey_def NewHeight_def GetLatestHeight_def sliceBytes_def
  verifySignatureAndUpdate_def setClientState_def produceVerificationArgs_def
  verifyAtPath_def diversifierOf_def Let_def

text \<open>C1 (as amended). Verification is not free of side effects. A verification call that
  fails leaves the client store as it was. A call that succeeds increments the client's
  sequence, sets the consensus state's timestamp to the timestamp of the proof and writes
  the marshalled client state under the client-state key; only \<open>VerifyNonMembership\<close>,
  which returns nil without checking anything, changes nothing.\<close>

theorem verification_store_effect:
  assumes "runVerify env c w = (r, w')"
  shows "case r of
           Some e \<Rightarrow> clientStore w' = clientStore w
         | None \<Rightarrow>
             if isNonMembership c then w' = w
             else \<exists>tsd cons bz.
                    UnmarshalTimestampedSignatureData env (sliceBytes (proofOf c)) = Inr tsd
                  \<and> ConsensusState (client w) = Some cons
                  \<and> client w' = (client w)\<lparr>Sequence := Sequence (client w) + 1,
                        ConsensusState := Some (cons\<lparr>Timestamp := TSD_Timestamp tsd\<rparr>)\<rparr>
                  \<and> MarshalClientState env (client w') = Inr bz
                  \<and> clientStore w' = (clientStore w)(KeyClientState env \<mapsto> bz)"
  using runVerify_effect [OF assms] by simp

text \<open>The theorem at a concrete call: a connection proof signed at time 20 for sequence 5
  is accepted and the store then holds the marshalled, updated client state.\<close>

theorem verification_store_effect_witness:
  "\<exists>bz. MarshalClientState toyCallees
            (client (snd (runVerify toyCallees
               (CallVerifyConnectionState (NewHeight 0 5) (MerklePrefix [105])
                  (Some [20, 7, 5, 20, 3, 9]) ''connection-0'' [9]) (worldOf activeClient)))) = Inr bz
      \<and> clientStore (snd (runVerify toyCallees
               (CallVerifyConnectionState (NewHeight 0 5) (MerklePrefix [105])
                  (Some [20, 7, 5, 20, 3, 9]) ''connection-0'' [9]) (worldOf activeClient)))
          = (clientStore (worldOf activeClient))(KeyClientState toyCallees \<mapsto> bz)"
proof -
  let ?c = "CallVerifyConnectionState (NewHeight 0 5) (MerklePrefix [105])
                  (Some [20, 7, 5, 20, 3, 9]) ''connection-0'' [9]"
  have ok: "fst (runVerify toyCallees ?c (worldOf activeClient)) = None"
    by (simp add: VerifyConnectionState_def toy_eval)
  then have "runVerify toyCallees ?c (worldOf activeClient)
      = (None, snd (runVerify toyCallees ?c (worldOf activeClient)))"
    by (metis prod.collapse)
  from verification_store_effect [OF this] show ?thesis by auto
qed

text \<open>The claim as stated fails: an accepted membership proof turns the stored client
  state \<open>[5, 0, 10]\<close> (sequence 5, time 10) into \<open>[6, 0, 20]\<close>.\<close>

theorem verification_changes_store:
  "fst (VerifyMembership toyCallees (NewHeight 0 5) 0 0 (Some [20, 7, 5, 20, 2, 42]) [1] [42]
          (worldOf activeClient)) = None
   \<and> clientStore (worldOf activeClient) (KeyClientState toyCallees) = Some [5, 0, 10]
   \<and> clientStore (snd (VerifyMembership toyCallees (NewHeight 0 5) 0 0
          (Some [20, 7, 5, 20, 2, 42]) [1] [42] (worldOf activeClient)))
        (KeyClientState toyCallees) = Some [6, 0, 20]"
  by (simp add: VerifyMembership_def toy_eval)


subsection \<open>Proofs rejected before any signature check\<close>

lemma produceVerificationArgs_rejects:
  assumes codec: "\<forall>tsd. UnmarshalTimestampedSignatureData env [] = Inr tsd
                    \<longrightarrow> SignatureData tsd = []"
    and bad: "RevisionNumber h \<noteq> 0 \<or> RevisionHeight h \<noteq> Sequence cs
              \<or> pr = None \<or> pr = Some []"
  shows "\<exists>e. produceVerificationArgs env cs h p pr = Inl e"
  using assms
  by (auto simp: produceVerificationArgs_def Let_def GetLatestHeight_def NewHeight_def
           split: if_splits Prefix.splits option.splits sum.splits)

lemma verifyAtPath_rejects:
  assumes "\<forall>tsd. UnmarshalTimestampedSignatureData env [] = Inr tsd
                    \<longrightarrow> SignatureData tsd = []"
    and "RevisionNumber h \<noteq> 0 \<or> RevisionHeight h \<noteq> Sequence (client w)
              \<or> pr = None \<or> pr = Some []"
  shows "\<exists>e. verifyAtPath env h p pr hp sb w = (Some e, w)"
proof -
  from produceVerificationArgs_rejects [OF assms]
  obtain e where "produceVerificationArgs env (client w) h p pr = Inl e" by blast
  then show ?thesis by (simp add: verifyAtPath_def)
qed

lemma VerifyMembership_rejects:
  assumes "\<forall>tsd. UnmarshalTimestampedSignatureData env [] = Inr tsd
                    \<longrightarrow> SignatureData tsd = []"
    and "RevisionNumber h \<noteq> 0 \<or> RevisionHeight h \<noteq> Sequence (client w)
              \<or> pr = None \<or> pr = Some []"
  shows "\<exists>e. VerifyMembership env h dt db pr pa v w = (Some e, w)"
  using assms
  by (auto simp: VerifyMembership_def Let_def GetLatestHeight_def NewHeight_def sliceBytes_def
           split: if_splits option.splits sum.splits)

text \<open>C9 (as amended). For every verification call other than the unimplemented
  \<open>VerifyNonMembership\<close>: if the revision number of the proof height is not 0, or its
  revision height, moved forward by one for \<open>VerifyClientState\<close> and by two for
  \<open>VerifyClientConsensusState\<close>, differs from the client's sequence, or the proof bytes
  are nil or empty, the call fails and leaves the whole state as it was: no signature
  check was made and nothing was written. The codec is assumed to decode the empty byte
  string to a message without signature data, or to fail.\<close>

theorem malformed_proof_rejected_unsigned:
  assumes codec: "\<forall>tsd. UnmarshalTimestampedSignatureData env [] = Inr tsd
                    \<longrightarrow> SignatureData tsd = []"
    and impl: "\<not> isNonMembership c"
    and bad: "RevisionNumber (proofHeight c) \<noteq> 0
              \<or> RevisionHeight (proofHeight c) + heightShift c \<noteq> Sequence (client w)
              \<or> proofOf c = None \<or> proofOf c = Some []"
  shows "\<exists>e. runVerify env c w = (Some e, w)"
proof (cases c)
  case (CallVerifyMembership h dt db pr pa v)
  with bad VerifyMembership_rejects [OF codec, of h w pr dt db pa v] show ?thesis by simp
next
  case (CallVerifyNonMembership h dt db pr pa)
  with impl show ?thesis by simp
next
  case (CallVerifyClientState h p i pr cl)
  with bad verifyAtPath_rejects [OF codec,
      of "NewHeight (RevisionNumber h) (RevisionHeight h + 1)" w pr]
  show ?thesis by (simp add: VerifyClientState_def NewHeight_def)
next
  case (CallVerifyClientConsensusState h i ch p pr co)
  with bad verifyAtPath_rejects [OF codec,
      of "NewHeight (RevisionNumber h) (RevisionHeight h + 2)" w pr]
  show ?thesis by (simp add: VerifyClientConsensusState_def NewHeight_def)
next
  case (CallVerifyConnectionState h p pr i cn)
  with bad verifyAtPath_rejects [OF codec, of h w pr]
  show ?thesis by (simp add: VerifyConnectionState_def)
next
  case (CallVerifyChannelState h p pr po ci ch)
  with bad verifyAtPath_rejects [OF codec, of h w pr]
  show ?thesis by (simp add: VerifyChannelState_def)
next
  case (CallVerifyPacketCommitment h p pr po ci s cb)
  with bad verifyAtPath_rejects [OF codec, of h w pr]
  show ?thesis by (simp add: VerifyPacketCommitment_def)
next
  case (CallVerifyPacketAcknowledgement h p pr po ci s a)
  with bad verifyAtPath_rejects [OF codec, of h w pr]
  show ?thesis by (simp add: VerifyPacketAcknowledgement_def)
next
  case (CallVerifyPacketReceiptAbsence h p pr po ci s)
  with bad verifyAtPath_rejects [OF codec, of h w pr]
  show ?thesis by (simp add: VerifyPacketReceiptAbsence_def)
next
  case (CallVerifyNextSequenceRecv h p pr po ci s)
  with bad verifyAtPath_rejects [OF codec, of h w pr]
  show ?thesis by (simp add: VerifyNextSequenceRecv_def)
qed

text \<open>The theorem at a concrete call: a membership proof for sequence 4 against a client
  at sequence 5.\<close>

theorem malformed_proof_rejected_unsigned_witness:
  "\<exists>e. runVerify toyCallees
          (CallVerifyMembership (NewHeight 0 4) 0 0 (Some [20, 7, 4, 20, 2, 42]) [1] [42])
          (worldOf activeClient) = (Some e, worldOf activeClient)"
proof -
  have "\<forall>tsd. UnmarshalTimestampedSignatureData toyCallees [] = Inr tsd
          \<longrightarrow> SignatureData tsd = []"
    by (auto simp: toyCallees_def)
  from malformed_proof_rejected_unsigned [OF this, of
      "CallVerifyMembership (NewHeight 0 4) 0 0 (Some [20, 7, 4, 20, 2, 42]) [1] [42]"
      "worldOf activeClient"]
  show ?thesis by (simp add: toy_eval)
qed

text \<open>The claim as stated fails for \<open>VerifyClientState\<close>: a proof height whose revision
  height 4 differs from the client's sequence 5 is accepted, after a signature check.\<close>

theorem shifted_height_accepted:
  "RevisionHeight (NewHeight 0 4) \<noteq> Sequence (client (worldOf activeClient))
   \<and> runVerify toyCallees
       (CallVerifyClientState (NewHeight 0 4) (MerklePrefix [105]) ''07-tendermint-0''
          (Some [20, 7, 5, 20, 1, 9]) [9]) (worldOf activeClient)
     = (None,
        \<lparr>client = activeClient\<lparr>Sequence := 6,
             ConsensusState := Some (machineKey\<lparr>Timestamp := 20\<rparr>)\<rparr>,
         clientStore = [KeyClientState toyCallees \<mapsto> [6, 0, 20]],
         sigChecks = [([7], [5, 20, 1, 9], [7, 5, 20, 1, 9])]\<rparr>)"
  by (simp add: VerifyClientState_def toy_eval)

subsection \<open>The frozen flag\<close>

lemma verifySignatureAndUpdate_flag:
  assumes "\<forall>cs. \<exists>bz. MarshalClientState env cs = Inr bz"
  shows "fst (verifySignatureAndUpdate env pk sb sd ts (w\<lparr>client := (client w)\<lparr>IsFrozen := b\<rparr>\<rparr>))
         = fst (verifySignatureAndUpdate env pk sb sd ts w)"
proof -
  have m: "\<And>cs. \<exists>bz. MarshalClientState env cs = Inr bz" using assms by blast
  have s: "\<And>w'. fst (setClientState env w') = None"
  proof -
    fix w' :: "('a, 'b) World"
    from m [of "client w'"] show "fst (setClientState env w') = None"
      by (auto simp: setClientState_def)
  qed
  show ?thesis
    by (simp add: verifySignatureAndUpdate_def Let_def s split: option.splits)
qed

text \<open>C2 (as amended). The solo machine's \<open>VerifyMembership\<close> does not look at the frozen
  flag and has no frozen-client error: on a frozen client it returns what it returns on
  the same client unfrozen (given that marshalling the client state does not fail). Only
  \<open>Status\<close> reports the flag: it returns Frozen.\<close>

theorem frozen_flag_not_consulted:
  assumes "\<forall>cs. \<exists>bz. MarshalClientState env cs = Inr bz"
  shows "fst (VerifyMembership env h dt db pr pa v (w\<lparr>client := (client w)\<lparr>IsFrozen := True\<rparr>\<rparr>))
         = fst (VerifyMembership env h dt db pr pa v w)
         \<and> Status ctx store ((client w)\<lparr>IsFrozen := True\<rparr>) = Frozen"
  by (simp add: VerifyMembership_def Let_def GetLatestHeight_def Status_def
           verifySignatureAndUpdate_flag [OF assms]
           split: option.splits sum.splits)

text \<open>The theorem at a concrete call, on the frozen and the active client at sequence 5.\<close>

theorem frozen_flag_not_consulted_witness:
  "fst (VerifyMembership toyCallees (NewHeight 0 5) 0 0 (Some [20, 7, 5, 20, 2, 42]) [1] [42]
          (worldOf frozenClient))
   = fst (VerifyMembership toyCallees (NewHeight 0 5) 0 0 (Some [20, 7, 5, 20, 2, 42]) [1] [42]
          (worldOf activeClient))
   \<and> Status \<lparr>BlockTime = 30\<rparr> (clientStore (worldOf frozenClient)) frozenClient = Frozen"
proof -
  have "\<forall>cs. \<exists>bz. MarshalClientState toyCallees cs = Inr bz"
    by (simp add: toyCallees_def)
  from frozen_flag_not_consulted [OF this, of "NewHeight 0 5" 0 0 "Some [20, 7, 5, 20, 2, 42]"
      "[1]" "[42]" "(worldOf activeClient)\<lparr>clientStore := clientStore (worldOf frozenClient)\<rparr>"
      "\<lparr>BlockTime = 30\<rparr>" "clientStore (worldOf frozenClient)"]
  show ?thesis
    by (simp add: VerifyMembership_def toy_eval Status_def)
qed

text \<open>The claim as stated fails: on a frozen client \<open>VerifyMembership\<close> accepts a valid
  proof, and \<open>VerifyNonMembership\<close> returns nil.\<close>

theorem frozen_client_verifies:
  "IsFrozen (client (worldOf frozenClient))
   \<and> Status \<lparr>BlockTime = 30\<rparr> (clientStore (worldOf frozenClient)) (client (worldOf frozenClient))
       = Frozen
   \<and> fst (VerifyMembership toyCallees (NewHeight 0 5) 0 0 (Some [20, 7, 5, 20, 2, 42]) [1] [42]
          (worldOf frozenClient)) = None
   \<and> fst (VerifyNonMembership toyCallees (NewHeight 0 5) 0 0 (Some [20]) [1]
          (worldOf frozenClient)) = None"
  by (simp add: VerifyMembership_def VerifyNonMembership_def Status_def toy_eval)








subsection \<open>Status and initialisation\<close>

text \<open>C7 (as amended). The solo machine has no trusting period and never expires:
  \<open>Status\<close> returns Frozen when the frozen flag is set and Active otherwise, whatever
  the current time and the consensus state's timestamp; it never returns Expired.\<close>

theorem status_two_valued:
  "Status ctx store cs = (if IsFrozen cs then Frozen else Active)
   \<and> Status ctx store cs \<noteq> Expired
   \<and> Status ctx store cs = Status ctx' store' cs"
  by (simp add: Status_def)

text \<open>The claim as stated fails: a client that is not frozen, whose consensus state is
  1500 seconds older than the block time, is Active, not Expired.\<close>

theorem stale_client_active:
  "\<not> IsFrozen activeClient
   \<and> ConsensusState activeClient = Some machineKey
   \<and> unat (BlockTime \<lparr>BlockTime = 1500000000000\<rparr>) - unat (Timestamp machineKey)
       > 1000000000000
   \<and> Status \<lparr>BlockTime = 1500000000000\<rparr> Map.empty activeClient = Active"
  by (simp add: Status_def activeClient_def NewClientState_def machineKey_def)

text \<open>C8 (as amended). \<open>Initialize\<close> fails, with the invalid-consensus error, if and only
  if the supplied consensus state is not deeply equal to the consensus state held in the
  client state; on a match it returns nil. It only checks: the store is left as it was.\<close>

theorem Initialize_checks_only:
  "Initialize ctx store consState cs
     = (if consState = SoloMachineConsensusState (ConsensusState cs) then None
        else Some ErrInvalidConsensus, store)"
  by (cases consState) (auto simp: Initialize_def DeepEqual_def)

text \<open>The claim as stated fails: on a match \<open>Initialize\<close> succeeds and the store is
  still empty; no consensus state was stored.\<close>

theorem Initialize_stores_nothing:
  "Initialize \<lparr>BlockTime = 30\<rparr> Map.empty (SoloMachineConsensusState (Some machineKey))
      activeClient = (None, Map.empty)"
  by (simp add: Initialize_def DeepEqual_def activeClient_def NewClientState_def)


section \<open>Properties of the 08-wasm code store\<close>

lemma uncompressIfGzip_Inr:
  assumes "uncompressIfGzip k code st = (Inr code', st')"
  shows "(if IsGzip k code then Uncompress k code (MaxWasmByteSize k) = Inr code'
          else code' = code)
         \<and> CodeHashes st' = CodeHashes st"
  using assms
  by (auto simp: uncompressIfGzip_def split: if_splits option.splits sum.splits)

text \<open>C10 (as amended). \<open>storeWasmCode\<close> rejects duplicates by the hash of the
  uncompressed code. When the code is not gzip and its hash is recorded, or the code is
  gzip, the gas charge for uncompressing it does not exhaust the gas meter, it
  uncompresses and the hash of the uncompressed code is recorded, the call fails with
  \<open>ErrWasmCodeExists\<close> and changes nothing but the gas consumed. On success the
  returned hash is the hash of the uncompressed code, was not recorded before and is
  recorded afterwards.\<close>

theorem storeWasmCode_rejects_duplicates:
  "(\<not> IsGzip k code \<and> Sum256 k code \<in> CodeHashes st
      \<longrightarrow> storeWasmCode k code st = (Inl ErrWasmCodeExists, st))
   \<and> (\<forall>g code'. IsGzip k code
          \<and> ConsumeGas k (GasMeter st) (UncompressCosts k (length code)) = Some g
          \<and> Uncompress k code (MaxWasmByteSize k) = Inr code'
          \<and> Sum256 k code' \<in> CodeHashes st
      \<longrightarrow> storeWasmCode k code st = (Inl ErrWasmCodeExists, st\<lparr>GasMeter := g\<rparr>))
   \<and> (\<forall>h st'. storeWasmCode k code st = (Inr h, st')
      \<longrightarrow> (\<exists>code'. (if IsGzip k code then Uncompress k code (MaxWasmByteSize k) = Inr code'
                      else code' = code)
             \<and> h = Sum256 k code' \<and> h \<notin> CodeHashes st
             \<and> CodeHashes st' = insert h (CodeHashes st)))"
proof (intro conjI allI impI)
  assume "\<not> IsGzip k code \<and> Sum256 k code \<in> CodeHashes st"
  then show "storeWasmCode k code st = (Inl ErrWasmCodeExists, st)"
    by (simp add: storeWasmCode_def uncompressIfGzip_def generateWasmCodeHash_def
          HasCodeHash_def)
next
  fix g code'
  assume "IsGzip k code
          \<and> ConsumeGas k (GasMeter st) (UncompressCosts k (length code)) = Some g
          \<and> Uncompress k code (MaxWasmByteSize k) = Inr code'
          \<and> Sum256 k code' \<in> CodeHashes st"
  then show "storeWasmCode k code st = (Inl ErrWasmCodeExists, st\<lparr>GasMeter := g\<rparr>)"
    by (simp add: storeWasmCode_def uncompressIfGzip_def generateWasmCodeHash_def
          HasCodeHash_def)
next
  fix h st'
  assume ok: "storeWasmCode k code st = (Inr h, st')"
  obtain r st1 where u: "uncompressIfGzip k code st = (r, st1)"
    by (cases "uncompressIfGzip k code st")
  from ok u obtain code' where r: "r = Inr code'"
    by (cases r) (auto simp: storeWasmCode_def)
  from uncompressIfGzip_Inr [OF u [unfolded r]]
  have c: "if IsGzip k code then Uncompress k code (MaxWasmByteSize k) = Inr code'
           else code' = code" and hs: "CodeHashes st1 = CodeHashes st" by auto
  from ok u r have tail: "(let codeHash = generateWasmCodeHash k code' in
          if HasCodeHash st1 codeHash then (Inl ErrWasmCodeExists, st1)
          else
            case ValidateWasmCode k code' of
              Some err \<Rightarrow> (Inl (Wrap err ''wasm bytecode validation failed''), st1)
            | None \<Rightarrow>
                (case ConsumeGas k (GasMeter st1) (CompileCosts k (length code')) of
                   None \<Rightarrow> (Inl ErrorOutOfGas, st1)
                 | Some g \<Rightarrow>
                     (case StoreCode k (wasmVM st1) code' of
                        (Inl err, vm) \<Rightarrow>
                          (Inl (Wrap err ''failed to store contract''),
                           st1\<lparr>GasMeter := g, wasmVM := vm\<rparr>)
                      | (Inr vmCodeHash, vm) \<Rightarrow>
                          if vmCodeHash \<noteq> codeHash then
                            (Inl (Wrap ErrInvalidCodeHash ''expected, got''),
                             st1\<lparr>GasMeter := g, wasmVM := vm\<rparr>)
                          else
                            (case Pin k vm vmCodeHash of
                               (Some err, vm') \<Rightarrow>
                                 (Inl (Wrap err ''failed to pin contract''),
                                  st1\<lparr>GasMeter := g, wasmVM := vm'\<rparr>)
                             | (None, vm') \<Rightarrow>
                                 (case CodeHashesSetError k codeHash of
                                    Some err \<Rightarrow>
                                      (Inl (Wrap err ''failed to store code hash''),
                                       st1\<lparr>GasMeter := g, wasmVM := vm'\<rparr>)
                                  | None \<Rightarrow>
                                      (Inr codeHash,
                                       st1\<lparr>GasMeter := g, wasmVM := vm',
                                          CodeHashes := insert codeHash (CodeHashes st1)\<rparr>)))))) = (Inr h, st')"
    by (simp add: storeWasmCode_def)
  have nh: "Sum256 k code' \<notin> CodeHashes st1"
  proof
    assume "Sum256 k code' \<in> CodeHashes st1"
    with tail show False by (simp add: generateWasmCodeHash_def HasCodeHash_def)
  qed
  obtain rv vm where sc: "StoreCode k (wasmVM st1) code' = (rv, vm)"
    by (cases "StoreCode k (wasmVM st1) code'")
  obtain pe vm' where pin: "Pin k vm (Sum256 k code') = (pe, vm')"
    by (cases "Pin k vm (Sum256 k code')")
  from tail nh sc pin have "h = Sum256 k code' \<and> CodeHashes st' = insert h (CodeHashes st1)"
    by (cases "ValidateWasmCode k code'";
        cases "ConsumeGas k (GasMeter st1) (CompileCosts k (length code'))";
        cases rv; cases pe; cases "CodeHashesSetError k (Sum256 k code')";
        cases "rv = Inr (Sum256 k code')")
       (auto simp: generateWasmCodeHash_def HasCodeHash_def)
  with nh hs have "h = Sum256 k code' \<and> h \<notin> CodeHashes st
             \<and> CodeHashes st' = insert h (CodeHashes st)"
    by simp
  with c show "\<exists>code'. (if IsGzip k code then Uncompress k code (MaxWasmByteSize k) = Inr code'
                      else code' = code)
             \<and> h = Sum256 k code' \<and> h \<notin> CodeHashes st
             \<and> CodeHashes st' = insert h (CodeHashes st)"
    by blast
qed


lemmas wasm_eval = storeWasmCode_def uncompressIfGzip_def generateWasmCodeHash_def
  HasCodeHash_def toyWasm_def toyHash_def toyWasmState_def gzipCode_def Let_def

text \<open>The theorem at concrete inputs: a recorded plain code, the same code gzip-compressed,
  and the gzip code stored into an empty code-hash store.\<close>

theorem storeWasmCode_rejects_duplicates_witness:
  "storeWasmCode toyWasm [1, 2] (toyWasmState 30 {toyHash [1, 2]})
     = (Inl ErrWasmCodeExists, toyWasmState 30 {toyHash [1, 2]})
   \<and> storeWasmCode toyWasm gzipCode (toyWasmState 30 {toyHash [1, 2]})
     = (Inl ErrWasmCodeExists, (toyWasmState 30 {toyHash [1, 2]})\<lparr>GasMeter := (5, 30)\<rparr>)
   \<and> (\<exists>code'. (if IsGzip toyWasm gzipCode
                  then Uncompress toyWasm gzipCode (MaxWasmByteSize toyWasm) = Inr code'
                  else code' = gzipCode)
        \<and> toyHash [1, 2] = Sum256 toyWasm code'
        \<and> toyHash [1, 2] \<notin> CodeHashes (toyWasmState 30 {})
        \<and> CodeHashes (snd (storeWasmCode toyWasm gzipCode (toyWasmState 30 {})))
            = insert (toyHash [1, 2]) (CodeHashes (toyWasmState 30 {})))"
proof -
  have a: "\<not> IsGzip toyWasm [1, 2]
      \<and> Sum256 toyWasm [1, 2] \<in> CodeHashes (toyWasmState 30 {toyHash [1, 2]})"
    by (simp add: wasm_eval)
  have b: "IsGzip toyWasm gzipCode
      \<and> ConsumeGas toyWasm (GasMeter (toyWasmState 30 {toyHash [1, 2]}))
          (UncompressCosts toyWasm (length gzipCode)) = Some (5, 30)
      \<and> Uncompress toyWasm gzipCode (MaxWasmByteSize toyWasm) = Inr [1, 2]
      \<and> Sum256 toyWasm [1, 2] \<in> CodeHashes (toyWasmState 30 {toyHash [1, 2]})"
    by (simp add: wasm_eval)
  have "fst (storeWasmCode toyWasm gzipCode (toyWasmState 30 {})) = Inr (toyHash [1, 2])"
    by (simp add: wasm_eval)
  then have c: "storeWasmCode toyWasm gzipCode (toyWasmState 30 {})
      = (Inr (toyHash [1, 2]), snd (storeWasmCode toyWasm gzipCode (toyWasmState 30 {})))"
    by (metis prod.collapse)
  note t1 = storeWasmCode_rejects_duplicates
    [of toyWasm "[1, 2]" "toyWasmState 30 {toyHash [1, 2]}", THEN conjunct1, THEN mp, OF a]
  note t2 = storeWasmCode_rejects_duplicates
    [of toyWasm gzipCode "toyWasmState 30 {toyHash [1, 2]}", THEN conjunct2, THEN conjunct1,
     THEN spec, THEN spec, THEN mp, OF b]
  note t3 = storeWasmCode_rejects_duplicates
    [of toyWasm gzipCode "toyWasmState 30 {}", THEN conjunct2, THEN conjunct2,
     THEN spec, THEN spec, THEN mp, OF c]
  show ?thesis
    by (intro conjI) (rule t1, rule t2, rule t3)
qed

text \<open>The claim as stated fails: for a gzip code whose hash and whose uncompressed code's
  hash are both recorded, a gas meter with too little gas left makes the call end with
  the out-of-gas panic, not with \<open>ErrWasmCodeExists\<close>.\<close>

theorem duplicate_out_of_gas:
  "Sum256 toyWasm gzipCode \<in> CodeHashes (toyWasmState 3 {toyHash gzipCode, toyHash [1, 2]})
   \<and> Uncompress toyWasm gzipCode (MaxWasmByteSize toyWasm) = Inr [1, 2]
   \<and> Sum256 toyWasm [1, 2] \<in> CodeHashes (toyWasmState 3 {toyHash gzipCode, toyHash [1, 2]})
   \<and> storeWasmCode toyWasm gzipCode (toyWasmState 3 {toyHash gzipCode, toyHash [1, 2]})
       = (Inl ErrorOutOfGas, toyWasmState 3 {toyHash gzipCode, toyHash [1, 2]})"
  by (simp add: wasm_eval)


section \<open>Properties of the light-client contract\<close>

lemma height_lt_irrefl: "\<not> height_lt a a"
  by (simp add: height_lt_def)

lemma height_lt_asym: "height_lt a b \<Longrightarrow> \<not> height_lt b a"
  by (auto simp: height_lt_def)

lemma height_le_not_lt: "height_le a b \<Longrightarrow> \<not> height_lt b a"
  by (auto simp: height_le_def height_lt_irrefl dest: height_lt_asym)

lemma update_state_cases:
  assumes "update_state q now hdr cl = Inr (h, cl')"
  shows "h = h_height hdr \<and> \<not> is_frozen cl \<and> verify_header q now cl hdr = None
         \<and> (cl' = cl \<and> consensus_at cl (h_height hdr) = Some (consensus_of hdr)
            \<or> cl' = freeze (h_height hdr) cl
            \<or> (consensus_at cl (h_height hdr) = None
                \<and> \<not> height_le (h_height hdr) (h_trusted_height hdr)
                \<and> cl' = cl\<lparr>consensus_states :=
                              (h_height hdr, consensus_of hdr) # consensus_states cl,
                            client_state :=
                              (client_state cl)\<lparr>latest_height :=
                                 if height_lt (latest_height (client_state cl)) (h_height hdr)
                                 then h_height hdr else latest_height (client_state cl)\<rparr>\<rparr>))"
  using assms
  by (auto simp: update_state_def split: if_splits option.splits)

text \<open>C5. Under any update that returns a result the latest height does not decrease.
  When the header's height is at most the latest height and the update did not freeze
  the client, the header's consensus state is then stored at the header's height, the
  latest height is unchanged and no other height's consensus state has changed.\<close>

theorem update_state_backfills:
  assumes "update_state q now hdr cl = Inr (h, cl')"
  shows "height_le (latest_height (client_state cl)) (latest_height (client_state cl'))
         \<and> (\<not> is_frozen cl' \<and> height_le (h_height hdr) (latest_height (client_state cl))
            \<longrightarrow> consensus_at cl' (h_height hdr) = Some (consensus_of hdr)
                \<and> latest_height (client_state cl') = latest_height (client_state cl)
                \<and> (\<forall>k. k \<noteq> h_height hdr \<longrightarrow> consensus_at cl' k = consensus_at cl k))"
proof -
  from update_state_cases [OF assms]
  consider (same) "cl' = cl" "consensus_at cl (h_height hdr) = Some (consensus_of hdr)"
    | (frozen) "cl' = freeze (h_height hdr) cl"
    | (stored) "cl' = cl\<lparr>consensus_states :=
                              (h_height hdr, consensus_of hdr) # consensus_states cl,
                            client_state :=
                              (client_state cl)\<lparr>latest_height :=
                                 if height_lt (latest_height (client_state cl)) (h_height hdr)
                                 then h_height hdr else latest_height (client_state cl)\<rparr>\<rparr>"
    by blast
  then show ?thesis
  proof cases
    case same
    then show ?thesis by (simp add: height_le_def)
  next
    case frozen
    then show ?thesis by (simp add: freeze_def is_frozen_def height_le_def)
  next
    case stored
    then show ?thesis
      by (auto simp: consensus_at_def height_le_def dest: height_lt_asym)
  qed
qed

text \<open>C6. When an update with a header returned a result and did not freeze the client,
  applying the same header again at the same time, or at any time at which the header
  still verifies, returns the same height and leaves the client as the first update left
  it.\<close>

theorem update_state_idempotent:
  assumes "update_state q now hdr cl = Inr (h, cl1)" and "\<not> is_frozen cl1"
  shows "update_state q now hdr cl1 = Inr (h, cl1)
         \<and> (\<forall>now'. verify_header q now' cl hdr = None
               \<longrightarrow> update_state q now' hdr cl1 = Inr (h, cl1))"
proof -
  from update_state_cases [OF assms(1)]
  have h: "h = h_height hdr" and v: "verify_header q now cl hdr = None"
    and c: "cl1 = cl \<and> consensus_at cl (h_height hdr) = Some (consensus_of hdr)
            \<or> cl1 = freeze (h_height hdr) cl
            \<or> (consensus_at cl (h_height hdr) = None
                \<and> \<not> height_le (h_height hdr) (h_trusted_height hdr)
                \<and> cl1 = cl\<lparr>consensus_states :=
                              (h_height hdr, consensus_of hdr) # consensus_states cl,
                            client_state :=
                              (client_state cl)\<lparr>latest_height :=
                                 if height_lt (latest_height (client_state cl)) (h_height hdr)
                                 then h_height hdr else latest_height (client_state cl)\<rparr>\<rparr>)"
    by auto
  from assms(2) have nf: "cl1 \<noteq> freeze (h_height hdr) cl"
    by (auto simp: freeze_def is_frozen_def)
  have at: "consensus_at cl1 (h_height hdr) = Some (consensus_of hdr)"
    using c nf by (auto simp: consensus_at_def)
  have tr: "consensus_at cl1 (h_trusted_height hdr) = consensus_at cl (h_trusted_height hdr)"
    using c nf by (auto simp: consensus_at_def height_le_def)
  have par: "trusting_period (client_state cl1) = trusting_period (client_state cl)
      \<and> trust_threshold (client_state cl1) = trust_threshold (client_state cl)
      \<and> unbonding_period (client_state cl1) = unbonding_period (client_state cl)
      \<and> max_clock_drift (client_state cl1) = max_clock_drift (client_state cl)"
    using c nf by auto
  have ver: "verify_header q t cl1 hdr = verify_header q t cl hdr" for t
    by (simp add: verify_header_def header_valid_def tr par split: option.splits)
  have "update_state q t hdr cl1 = Inr (h, cl1)" if "verify_header q t cl hdr = None" for t
    using that assms(2) at h by (simp add: update_state_def ver)
  with v show ?thesis by blast
qed

text \<open>C4. Two headers at the same height that assert different consensus states, each
  verified against the consensus state at its own trusted height, are misbehaviour on a
  client that is not frozen: the check returns the headers' height and submitting the
  evidence freezes the client at that height. The height may be above the latest
  height and the two trusted heights may differ.\<close>

theorem misbehaviour_freezes:
  assumes "\<not> is_frozen cl"
    and "h_height header1 = h_height header2"
    and "consensus_of header1 \<noteq> consensus_of header2"
    and "verify_header q now cl header1 = None"
    and "verify_header q now cl header2 = None"
  shows "check_misbehaviour q now (header1, header2) cl = Inr (h_height header1)
         \<and> submit_misbehaviour q now (header1, header2) cl = Inr (freeze (h_height header1) cl)
         \<and> frozen_height (client_state (freeze (h_height header1) cl)) = Some (h_height header1)"
proof -
  from assms(4) have t1: "consensus_at cl (h_trusted_height header1) \<noteq> None"
    by (auto simp: verify_header_def split: option.splits)
  from assms(5) have t2: "consensus_at cl (h_trusted_height header2) \<noteq> None"
    by (auto simp: verify_header_def split: option.splits)
  from assms t1 t2 have "check_misbehaviour q now (header1, header2) cl = Inr (h_height header1)"
    by (simp add: check_misbehaviour_def)
  then show ?thesis by (simp add: submit_misbehaviour_def freeze_def)
qed

lemmas spec_eval = update_state_def verify_header_def header_valid_def consensus_at_def
  consensus_of_def violates_monotonicity_def is_frozen_def freeze_def height_lt_def
  height_le_def toyClient_def toyHeader_def toyQuorum_def NewHeight_def
  check_misbehaviour_def submit_misbehaviour_def

text \<open>A concrete update: at time 200 a header at height 7, trusted at height 5, fills the
  gap between the stored heights 5 and 10.\<close>

lemma backfill_run:
  "update_state toyQuorum 200 (toyHeader 7 5 70 [7] [1]) toyClient
     = Inr (NewHeight 0 7,
            toyClient\<lparr>consensus_states :=
               (NewHeight 0 7, consensus_of (toyHeader 7 5 70 [7] [1]))
                 # consensus_states toyClient\<rparr>)"
  by (simp add: spec_eval)

text \<open>The theorem of C5 at the concrete update: the consensus state is stored at height 7
  and the latest height is still 13.\<close>

theorem update_state_backfills_witness:
  "consensus_at (toyClient\<lparr>consensus_states :=
               (NewHeight 0 7, consensus_of (toyHeader 7 5 70 [7] [1]))
                 # consensus_states toyClient\<rparr>) (h_height (toyHeader 7 5 70 [7] [1]))
     = Some (consensus_of (toyHeader 7 5 70 [7] [1]))
   \<and> latest_height (client_state (toyClient\<lparr>consensus_states :=
               (NewHeight 0 7, consensus_of (toyHeader 7 5 70 [7] [1]))
                 # consensus_states toyClient\<rparr>)) = NewHeight 0 13"
proof -
  have pre: "\<not> is_frozen (toyClient\<lparr>consensus_states :=
               (NewHeight 0 7, consensus_of (toyHeader 7 5 70 [7] [1]))
                 # consensus_states toyClient\<rparr>)
         \<and> height_le (h_height (toyHeader 7 5 70 [7] [1])) (latest_height (client_state toyClient))"
    by (simp add: spec_eval)
  have l: "latest_height (client_state toyClient) = NewHeight 0 13"
    by (simp add: toyClient_def)
  from update_state_backfills [OF backfill_run, THEN conjunct2, THEN mp, OF pre] l
  show ?thesis by simp
qed

text \<open>The theorem of C6 at the concrete update: the same header applied again.\<close>

theorem update_state_idempotent_witness:
  "update_state toyQuorum 200 (toyHeader 7 5 70 [7] [1])
     (toyClient\<lparr>consensus_states :=
               (NewHeight 0 7, consensus_of (toyHeader 7 5 70 [7] [1]))
                 # consensus_states toyClient\<rparr>)
   = Inr (NewHeight 0 7,
          toyClient\<lparr>consensus_states :=
               (NewHeight 0 7, consensus_of (toyHeader 7 5 70 [7] [1]))
                 # consensus_states toyClient\<rparr>)"
proof -
  have nf: "\<not> is_frozen (toyClient\<lparr>consensus_states :=
               (NewHeight 0 7, consensus_of (toyHeader 7 5 70 [7] [1]))
                 # consensus_states toyClient\<rparr>)"
    by (simp add: spec_eval)
  from update_state_idempotent [OF backfill_run nf, THEN conjunct1] show ?thesis .
qed

text \<open>The theorem of C4 at concrete evidence: two headers at height 16, above the latest
  height 13, with roots \<open>[1]\<close> and \<open>[2]\<close>, trusted at heights 10 and 13.\<close>

theorem misbehaviour_freezes_witness:
  "height_lt (latest_height (client_state toyClient)) (h_height (toyHeader 16 10 140 [1] [1]))
   \<and> h_trusted_height (toyHeader 16 10 140 [1] [1]) \<noteq> h_trusted_height (toyHeader 16 13 140 [2] [2])
   \<and> check_misbehaviour toyQuorum 200
       (toyHeader 16 10 140 [1] [1], toyHeader 16 13 140 [2] [2]) toyClient
     = Inr (h_height (toyHeader 16 10 140 [1] [1]))
   \<and> submit_misbehaviour toyQuorum 200
       (toyHeader 16 10 140 [1] [1], toyHeader 16 13 140 [2] [2]) toyClient
     = Inr (freeze (h_height (toyHeader 16 10 140 [1] [1])) toyClient)
   \<and> frozen_height (client_state (freeze (h_height (toyHeader 16 10 140 [1] [1])) toyClient))
     = Some (h_height (toyHeader 16 10 140 [1] [1]))"
proof -
  have a: "\<not> is_frozen toyClient" by (simp add: spec_eval)
  have b: "h_height (toyHeader 16 10 140 [1] [1]) = h_height (toyHeader 16 13 140 [2] [2])"
    by (simp add: toyHeader_def)
  have c: "consensus_of (toyHeader 16 10 140 [1] [1]) \<noteq> consensus_of (toyHeader 16 13 140 [2] [2])"
    by (simp add: toyHeader_def consensus_of_def)
  have d: "verify_header toyQuorum 200 toyClient (toyHeader 16 10 140 [1] [1]) = None"
    by (simp add: spec_eval)
  have e: "verify_header toyQuorum 200 toyClient (toyHeader 16 13 140 [2] [2]) = None"
    by (simp add: spec_eval)
  have f: "height_lt (latest_height (client_state toyClient)) (h_height (toyHeader 16 10 140 [1] [1]))
   \<and> h_trusted_height (toyHeader 16 10 140 [1] [1]) \<noteq> h_trusted_height (toyHeader 16 13 140 [2] [2])"
    by (simp add: spec_eval)
  from misbehaviour_freezes [OF a b c d e] f show ?thesis by blast
qed


end
